theory Spec2Isabelle
  imports Complex_Main "HOL-Library.Log_Nat"
begin

section \<open>JavaScript strings, as far as the monitor uses them\<close>

text \<open>
  A JavaScript string is modelled as a \<^typ>\<open>string\<close> whose characters are the code units
  0..255. The white space of \<open>String.prototype.trim\<close>, of the regular expression class
  \<open>\s\<close> and of \<open>parseInt\<close> is one and the same set; in that range it is TAB, LF, VT,
  FF, CR, SP and NBSP.
\<close>

definition js_space :: "char \<Rightarrow> bool" where
  "js_space c = (c \<in> set [CHR 0x09, CHR 0x0A, CHR 0x0B, CHR 0x0C, CHR 0x0D, CHR 0x20, CHR 0xA0])"

text \<open>\<open>s.trim()\<close>\<close>

definition trim :: "string \<Rightarrow> string" where
  "trim s = rev (dropWhile js_space (rev (dropWhile js_space s)))"

text \<open>
  \<open>s.split(c)\<close> for a separator of one character: the result is never empty, and the
  empty string splits into one empty piece.
\<close>

fun split_on :: "char \<Rightarrow> string \<Rightarrow> string list" where
  "split_on c [] = [[]]"
| "split_on c (x # xs) =
     (if x = c then [] # split_on c xs
      else (case split_on c xs of
              [] \<Rightarrow> [[x]]
            | y # ys \<Rightarrow> (x # y) # ys))"

text \<open>
  \<open>s.split(/\s+/)\<close>: every maximal run of white space is one separator, so leading
  white space gives a first piece \<open>''''\<close> and trailing white space a last piece \<open>''''\<close>.
\<close>

function split_ws :: "string \<Rightarrow> string list" where
  "split_ws [] = [[]]"
| "split_ws (x # xs) =
     (if js_space x then [] # split_ws (dropWhile js_space xs)
      else (case split_ws xs of
              [] \<Rightarrow> [[x]]
            | y # ys \<Rightarrow> (x # y) # ys))"
  by pat_completeness auto
termination
  by (relation "measure length") (auto simp: le_imp_less_Suc length_dropWhile_le)

text \<open>\<open>xs[i]\<close> on an array: \<open>undefined\<close> (here \<open>None\<close>) out of range.\<close>

definition at_index :: "'a list \<Rightarrow> nat \<Rightarrow> 'a option" where
  "at_index xs i = (if i < length xs then Some (xs ! i) else None)"

text \<open>\<open>x || d\<close> on a string that may be \<open>undefined\<close>: the empty string is falsy too.\<close>

definition or_default :: "string option \<Rightarrow> string \<Rightarrow> string" where
  "or_default x d = (case x of None \<Rightarrow> d | Some s \<Rightarrow> if s = [] then d else s)"

text \<open>
  \<open>parseInt(s)\<close> with no radix, after ECMAScript: leading white space is dropped, one sign
  is read, a prefix \<open>0x\<close> or \<open>0X\<close> selects radix 16 (radix 10 otherwise), and the longest
  run of digits of that radix is the number; anything after it is ignored. No digit at all
  gives \<open>NaN\<close>, here \<open>None\<close>. The result is kept as the exact integer: JavaScript rounds
  it to a double, which changes only values of 2^53 and more.
\<close>

definition digit_of :: "char \<Rightarrow> nat option" where
  "digit_of c =
     map_of
       [(CHR ''0'', 0), (CHR ''1'', 1), (CHR ''2'', 2), (CHR ''3'', 3), (CHR ''4'', 4), (CHR ''5'', 5),
        (CHR ''6'', 6), (CHR ''7'', 7), (CHR ''8'', 8), (CHR ''9'', 9), (CHR ''a'', 10), (CHR ''b'', 11),
        (CHR ''c'', 12), (CHR ''d'', 13), (CHR ''e'', 14), (CHR ''f'', 15), (CHR ''A'', 10), (CHR ''B'', 11),
        (CHR ''C'', 12), (CHR ''D'', 13), (CHR ''E'', 14), (CHR ''F'', 15)] c"

definition is_digit :: "nat \<Rightarrow> char \<Rightarrow> bool" where
  "is_digit radix c = (case digit_of c of None \<Rightarrow> False | Some d \<Rightarrow> d < radix)"

definition digits_value :: "nat \<Rightarrow> string \<Rightarrow> nat" where
  "digits_value radix z = foldl (\<lambda>a c. a * radix + (case digit_of c of None \<Rightarrow> 0 | Some d \<Rightarrow> d)) 0 z"

definition strip_sign :: "string \<Rightarrow> bool \<times> string" where
  "strip_sign s =
     (case s of
        [] \<Rightarrow> (False, s)
      | c # r \<Rightarrow> if c = CHR ''-'' then (True, r)
                 else if c = CHR ''+'' then (False, r)
                 else (False, s))"

definition strip_prefix :: "string \<Rightarrow> nat \<times> string" where
  "strip_prefix s =
     (case s of
        a # b # r \<Rightarrow> if a = CHR ''0'' \<and> (b = CHR ''x'' \<or> b = CHR ''X'') then (16, r) else (10, s)
      | _ \<Rightarrow> (10, s))"

definition parseInt :: "string \<Rightarrow> int option" where
  "parseInt inputString =
     (let (neg, s1) = strip_sign (dropWhile js_space inputString);
          (radix, s2) = strip_prefix s1;
          z = takeWhile (is_digit radix) s2
      in if z = [] then None
         else Some ((if neg then - 1 else 1) * int (digits_value radix z)))"

section \<open>JavaScript numbers: double precision\<close>

text \<open>
  A JavaScript number is an IEEE 754 double. A finite double is modelled by its exact
  value, a rational; every arithmetic operation computes the exact result and rounds it
  to the nearest double, ties to the even significand. \<open>fl\<close> is that rounding for
  results in the normal range (magnitude from \<open>2^-1022\<close> up to, not including,
  \<open>2^1024\<close>), where a double has a significand of 53 bits: with \<open>2^e \<le> |x| < 2^(e+1)\<close>
  the doubles near \<open>x\<close> are the multiples of \<open>2^(e-52)\<close>.
\<close>

definition round_even :: "rat \<Rightarrow> int" where
  "round_even y =
     (let n = \<lfloor>y\<rfloor>; r = y - of_int n
      in if r < 1 / 2 then n
         else if 1 / 2 < r then n + 1
         else if even n then n else n + 1)"

text \<open>The \<open>e\<close> with \<open>2^e \<le> x < 2^(e+1)\<close>, for \<open>x > 0\<close>.\<close>

definition exponent :: "rat \<Rightarrow> int" where
  "exponent x =
     (if 1 \<le> x then bitlen \<lfloor>x\<rfloor> - 1 else - bitlen (\<lceil>1 / x\<rceil> - 1))"

definition fl :: "rat \<Rightarrow> rat" where
  "fl x =
     (if x = 0 then 0
      else (let q = 2 powi (exponent \<bar>x\<bar> - 52)
            in of_int (round_even (x / q)) * q))"

datatype js_number = NaN | PosInfinity | NegInfinity | Finite rat

text \<open>
  \<open>a / b\<close> on two finite numbers, and \<open>x - b\<close> and \<open>x * b\<close> for a finite \<open>b\<close> (for
  \<open>x * b\<close>, a positive one): an infinity and \<open>NaN\<close> stay what they are.
\<close>

definition js_divide :: "rat \<Rightarrow> rat \<Rightarrow> js_number" where
  "js_divide a b =
     (if b = 0 then (if a = 0 then NaN else if 0 < a then PosInfinity else NegInfinity)
      else Finite (fl (a / b)))"

definition js_minus :: "js_number \<Rightarrow> rat \<Rightarrow> js_number" where
  "js_minus x b = (case x of Finite a \<Rightarrow> Finite (fl (a - b)) | other \<Rightarrow> other)"

definition js_times :: "js_number \<Rightarrow> rat \<Rightarrow> js_number" where
  "js_times x b = (case x of Finite a \<Rightarrow> Finite (fl (a * b)) | other \<Rightarrow> other)"

text \<open>\<open>Math.round(x)\<close>: the nearest integer, a tie going up.\<close>

definition Math_round :: "js_number \<Rightarrow> js_number" where
  "Math_round x = (case x of Finite a \<Rightarrow> Finite (of_int \<lfloor>a + 1 / 2\<rfloor>) | other \<Rightarrow> other)"

function decimal :: "nat \<Rightarrow> string" where
  "decimal n =
     (if n < 10 then [char_of (48 + n)]
      else decimal (n div 10) @ [char_of (48 + n mod 10)])"
  by pat_completeness auto
termination
  by (relation "measure id") auto

text \<open>
  The text of a number in a template string, for an integer below \<open>10^21\<close> (from there
  on JavaScript prints an exponent), an infinity or \<open>NaN\<close>.
\<close>

definition number_text :: "js_number \<Rightarrow> string" where
  "number_text x =
     (case x of
        NaN \<Rightarrow> ''NaN''
      | PosInfinity \<Rightarrow> ''Infinity''
      | NegInfinity \<Rightarrow> ''-Infinity''
      | Finite a \<Rightarrow> (if a < 0 then ''-'' @ decimal (nat (- \<lfloor>a\<rfloor>)) else decimal (nat \<lfloor>a\<rfloor>)))"

section \<open>Network monitor: data model\<close>

text \<open>
  One parsed line of \<open>ss -tunapl\<close>. A column the line does not have is \<open>undefined\<close>
  (\<open>None\<close>); \<open>process\<close> falls back to \<open>'unknown'\<close>.
\<close>

record connection =
  protocol :: "string option"
  state :: "string option"
  recv_q :: "string option"
  send_q :: "string option"
  local :: "string option"
  peer :: "string option"
  process :: string

text \<open>One listening socket; the source's field \<open>protocol\<close> is \<open>port_protocol\<close> here.\<close>

record listening_port =
  port_protocol :: "string option"
  port :: string
  address :: string

record stats =
  totalConnections :: nat
  establishedConnections :: nat
  listeningPorts :: nat

record snapshot =
  timestamp :: string
  connections :: "connection list"
  ports :: "listening_port list"
  stats :: stats

datatype anomaly_type = new_listening_port | connection_spike | suspicious_port

datatype severity = low | medium | high | critical

text \<open>
  The \<open>details\<close> of an anomaly: the new ports, or \<open>{previous, current, increase}\<close>, or
  the suspicious connections.
\<close>

datatype details =
  NewPorts "listening_port list"
| Spike nat nat string
| SuspiciousConns "connection list"

record anomaly =
  atype :: anomaly_type
  severity :: severity
  details :: details
  detected_at :: string

section \<open>Network monitor: anomaly detection\<close>

definition suspiciousPorts :: "int list" where
  "suspiciousPorts = [4444, 5555, 6666, 8888, 31337, 12345]"

text \<open>\<open>conn.peer ? parseInt(conn.peer.split(':').pop()) : 0\<close>; \<open>None\<close> is \<open>NaN\<close>.\<close>

definition peerPort :: "connection \<Rightarrow> int option" where
  "peerPort conn =
     (case peer conn of
        None \<Rightarrow> Some 0
      | Some p \<Rightarrow> if p = [] then Some 0 else parseInt (last (split_on CHR '':'' p)))"

text \<open>\<open>xs.includes(v)\<close> on an array of numbers without \<open>NaN\<close>.\<close>

definition array_includes :: "int list \<Rightarrow> int option \<Rightarrow> bool" where
  "array_includes xs v = (case v of None \<Rightarrow> False | Some n \<Rightarrow> n \<in> set xs)"

text \<open>
  The text of \<open>increase\<close>: \<open>Math.round((connCount / prevConnCount - 1) * 100)\<close>
  followed by a percent sign. The two counts are array lengths, below \<open>2^32\<close>, and so
  exact as doubles.
\<close>

definition increase :: "nat \<Rightarrow> nat \<Rightarrow> string" where
  "increase connCount prevConnCount =
     number_text
       (Math_round
          (js_times (js_minus (js_divide (of_nat connCount) (of_nat prevConnCount)) 1) 100))
     @ ''%''"

text \<open>
  \<open>detectAnomalies(currentState, previousState)\<close>; \<open>now\<close> is the clock reading
  \<open>new Date().toISOString()\<close>.
\<close>

definition detectAnomalies :: "string \<Rightarrow> snapshot \<Rightarrow> snapshot option \<Rightarrow> anomaly list" where
  "detectAnomalies now currentState previousState =
     (case previousState of
        None \<Rightarrow> []
      | Some prev \<Rightarrow>
          (let prevPorts = set (map port (ports prev));
               newPorts = filter (\<lambda>p. port p \<notin> prevPorts) (ports currentState);
               connCount = length (connections currentState);
               prevConnCount = length (connections prev);
               threshold = prevConnCount * 2;
               suspiciousConns =
                 filter (\<lambda>conn. array_includes suspiciousPorts (peerPort conn)) (connections currentState)
           in (if length newPorts > 0
               then [\<lparr>atype = new_listening_port, severity = medium,
                      details = NewPorts newPorts, detected_at = now\<rparr>]
               else [])
            @ (if connCount > threshold \<and> connCount > 50
               then [\<lparr>atype = connection_spike, severity = high,
                      details = Spike prevConnCount connCount (increase connCount prevConnCount),
                      detected_at = now\<rparr>]
               else [])
            @ (if length suspiciousConns > 0
               then [\<lparr>atype = suspicious_port, severity = critical,
                      details = SuspiciousConns suspiciousConns, detected_at = now\<rparr>]
               else [])))"

section \<open>Errors, the file system and the console\<close>

text \<open>
  What JavaScript throws, as a value: the error's class with its \<open>message\<close>. A child
  process that ends with a status other than 0 gives \<open>exec\<close>'s callback an error that
  carries the status.
\<close>

datatype js_error =
  TypeError string
| SyntaxError string
| Error string
| SystemError string
| ExecError nat

fun message :: "js_error \<Rightarrow> string" where
  "message (TypeError m) = m"
| "message (SyntaxError m) = m"
| "message (Error m) = m"
| "message (SystemError m) = m"
| "message (ExecError n) = ''Command failed''"

record url =
  hostname :: string
  pathname :: string
  search :: string

record http_request =
  req_hostname :: string
  req_path :: string
  req_method :: string
  content_type :: string
  content_length :: nat
  req_body :: string

text \<open>What the process writes to its console: \<open>console.log\<close> and \<open>console.error\<close>.\<close>

datatype log_line =
  AlertNoWebhook anomaly
| FailedToSendAlert nat
| ErrorSendingAlert js_error
| ErrorLoadingState js_error
| ErrorSavingState js_error

text \<open>
  The world outside the process: the regular files with their contents, the directories,
  a fault of the file system that makes every write fail with that error code (a full or
  read-only disk), the console, and the HTTPS requests handed to the network. A write
  that fails is refused as a whole here; what a write that fails half way leaves in the
  file is not modelled, and no property below speaks of a file after a failed write.
\<close>

record world =
  files :: "string \<rightharpoonup> string"
  dirs :: "string list"
  write_fault :: "string option"
  console :: "log_line list"
  outbox :: "http_request list"

text \<open>A synchronous call: it returns or throws, and may change the world.\<close>

type_synonym 'a io = "world \<Rightarrow> (js_error + 'a) \<times> world"

definition io_return :: "'a \<Rightarrow> 'a io" where
  "io_return x = (\<lambda>w. (Inr x, w))"

definition io_throw :: "js_error \<Rightarrow> 'a io" where
  "io_throw e = (\<lambda>w. (Inl e, w))"

definition io_bind :: "'a io \<Rightarrow> ('a \<Rightarrow> 'b io) \<Rightarrow> 'b io" where
  "io_bind m f = (\<lambda>w. case m w of (Inl e, w') \<Rightarrow> (Inl e, w') | (Inr x, w') \<Rightarrow> f x w')"

text \<open>\<open>try { m } catch (err) { h(err) }\<close>\<close>

definition io_catch :: "'a io \<Rightarrow> (js_error \<Rightarrow> 'a io) \<Rightarrow> 'a io" where
  "io_catch m h = (\<lambda>w. case m w of (Inl e, w') \<Rightarrow> h e w' | (Inr x, w') \<Rightarrow> (Inr x, w'))"

definition console_write :: "log_line \<Rightarrow> unit io" where
  "console_write l = (\<lambda>w. (Inr (), w\<lparr>console := console w @ [l]\<rparr>))"

definition existsSync :: "string \<Rightarrow> bool io" where
  "existsSync p = (\<lambda>w. (Inr (files w p \<noteq> None \<or> p \<in> set (dirs w)), w))"

definition readFileSync :: "string \<Rightarrow> string io" where
  "readFileSync p =
     (\<lambda>w. case files w p of
             None \<Rightarrow> (Inl (SystemError (if p \<in> set (dirs w) then ''EISDIR'' else ''ENOENT'')), w)
           | Some data \<Rightarrow> (Inr data, w))"

definition mkdirSync :: "string \<Rightarrow> unit io" where
  "mkdirSync p =
     (\<lambda>w. case write_fault w of
             Some code \<Rightarrow> (Inl (SystemError code), w)
           | None \<Rightarrow> (Inr (), w\<lparr>dirs := p # dirs w\<rparr>))"

definition writeFileSync :: "string \<Rightarrow> string \<Rightarrow> unit io" where
  "writeFileSync p data =
     (\<lambda>w. case write_fault w of
             Some code \<Rightarrow> (Inl (SystemError code), w)
           | None \<Rightarrow> (Inr (), w\<lparr>files := (files w)(p \<mapsto> data)\<rparr>))"

text \<open>
  \<open>path.dirname\<close> on a normalised path, as \<open>path.join\<close> returns it: the path up to its
  last slash.
\<close>

definition dirname :: "string \<Rightarrow> string" where
  "dirname p =
     (let segs = split_on CHR ''/'' p
      in if length segs \<le> 1 then ''.''
         else (let d = butlast (concat (map (\<lambda>seg. seg @ ''/'') (butlast segs)))
               in if d = [] then ''/'' else d))"

record config =
  checkInterval :: nat
  alertWebhook :: "string option"
  logFile :: string
  stateFile :: string
  threatsFile :: string

section \<open>Network monitor: state store\<close>

text \<open>
  \<open>loadState()\<close>. \<open>JSON_parse\<close> is \<open>JSON.parse\<close> read at the type of a snapshot: it
  throws on text that is not JSON, and \<open>null\<close> is \<open>None\<close>.
\<close>

definition loadState ::
  "config \<Rightarrow> (string \<Rightarrow> js_error + snapshot option) \<Rightarrow> snapshot option io" where
  "loadState CONFIG JSON_parse =
     io_catch
       (io_bind (existsSync (stateFile CONFIG)) (\<lambda>ex.
          if ex
          then io_bind (readFileSync (stateFile CONFIG)) (\<lambda>text.
                 case JSON_parse text of
                   Inl err \<Rightarrow> io_throw err
                 | Inr v \<Rightarrow> io_return v)
          else io_return None))
       (\<lambda>err. io_bind (console_write (ErrorLoadingState err)) (\<lambda>_. io_return None))"

text \<open>\<open>saveState(state)\<close>; \<open>JSON_stringify\<close> is \<open>JSON.stringify(state, null, 2)\<close>.\<close>

definition saveState :: "config \<Rightarrow> (snapshot \<Rightarrow> string) \<Rightarrow> snapshot \<Rightarrow> unit io" where
  "saveState CONFIG JSON_stringify currentState =
     io_catch
       (let dir = dirname (stateFile CONFIG)
        in io_bind (existsSync dir) (\<lambda>ex.
             io_bind (if \<not> ex then mkdirSync dir else io_return ()) (\<lambda>_.
               writeFileSync (stateFile CONFIG) (JSON_stringify currentState))))
       (\<lambda>err. console_write (ErrorSavingState err))"

section \<open>Network monitor: alert dispatch\<close>

text \<open>
  \<open>sendAlert(alert)\<close>. \<open>payload_of\<close> is the \<open>JSON.stringify\<close> of the Discord message
  built from the alert; \<open>URL\<close> is the constructor \<open>new URL(s)\<close>, which throws a
  \<open>TypeError\<close> on a string that is not a URL (\<open>None\<close>). The request is handed to the
  network; its outcome arrives later, at \<open>on_response\<close> or \<open>on_error\<close>.
\<close>

definition https_request :: "http_request \<Rightarrow> unit io" where
  "https_request req = (\<lambda>w. (Inr (), w\<lparr>outbox := outbox w @ [req]\<rparr>))"

definition sendAlert ::
  "config \<Rightarrow> (string \<Rightarrow> url option) \<Rightarrow> (anomaly \<Rightarrow> string) \<Rightarrow> anomaly \<Rightarrow> unit io" where
  "sendAlert CONFIG URL payload_of alert =
     (if or_default (alertWebhook CONFIG) [] = []
      then console_write (AlertNoWebhook alert)
      else
        (let payload = payload_of alert
         in io_bind
              (case URL (or_default (alertWebhook CONFIG) []) of
                 None \<Rightarrow> io_throw (TypeError ''Invalid URL'')
               | Some u \<Rightarrow> io_return u)
              (\<lambda>u. https_request
                 \<lparr>req_hostname = hostname u, req_path = pathname u @ search u,
                  req_method = ''POST'', content_type = ''application/json'',
                  content_length = length payload, req_body = payload\<rparr>)))"

definition on_response :: "nat \<Rightarrow> unit io" where
  "on_response statusCode =
     (if statusCode \<noteq> 204 then console_write (FailedToSendAlert statusCode) else io_return ())"

definition on_error :: "js_error \<Rightarrow> unit io" where
  "on_error err = console_write (ErrorSendingAlert err)"

section \<open>Network monitor: snapshot collector\<close>

text \<open>
  A finished child process: its exit status and what it wrote to standard output.
  \<open>exec\<close> calls back with an error exactly when the status is not 0.
\<close>

record proc_result =
  exit_code :: nat
  proc_stdout :: string

definition exec :: "proc_result \<Rightarrow> js_error + string" where
  "exec r = (if exit_code r \<noteq> 0 then Inl (ExecError (exit_code r)) else Inr (proc_stdout r))"

text \<open>
  \<open>grep PATTERN\<close> for a pattern without special characters: it prints the input lines
  that contain the pattern and ends with status 0 if there is such a line, with status 1
  if there is none. In \<open>ss -tuln | grep LISTEN\<close> the shell reports the status of
  \<open>grep\<close>, the last command of the pipeline.
\<close>

fun contains :: "string \<Rightarrow> string \<Rightarrow> bool" where
  "contains pat [] = (pat = [])"
| "contains pat (x # xs) = (take (length pat) (x # xs) = pat \<or> contains pat xs)"

definition text_lines :: "string \<Rightarrow> string list" where
  "text_lines s = (let ls = split_on CHR 0x0A s in if last ls = [] then butlast ls else ls)"

definition grep :: "string \<Rightarrow> string \<Rightarrow> proc_result" where
  "grep pat input =
     (let selected = filter (contains pat) (text_lines input)
      in \<lparr>exit_code = (if selected = [] then 1 else 0),
          proc_stdout = concat (map (\<lambda>l. l @ [CHR 0x0A]) selected)\<rparr>)"

text \<open>\<open>getNetworkConnections()\<close>, from the outcome of \<open>ss -tunapl\<close>.\<close>

definition getNetworkConnections :: "proc_result \<Rightarrow> js_error + connection list" where
  "getNetworkConnections ss_tunapl =
     (case exec ss_tunapl of
        Inl error \<Rightarrow> Inl error
      | Inr out \<Rightarrow>
          Inr (map (\<lambda>line.
                 let parts = split_ws line
                 in \<lparr>protocol = at_index parts 0, state = at_index parts 1,
                     recv_q = at_index parts 2, send_q = at_index parts 3,
                     local = at_index parts 4, peer = at_index parts 5,
                     process = or_default (at_index parts 6) ''unknown''\<rparr>)
               (filter (\<lambda>line. trim line \<noteq> []) (drop 1 (split_on CHR 0x0A out)))))"

text \<open>
  \<open>getListeningPorts()\<close>, from what \<open>ss -tuln\<close> prints: the command the source runs is
  the pipeline \<open>ss -tuln | grep LISTEN\<close>.
\<close>

definition getListeningPorts :: "string \<Rightarrow> js_error + listening_port list" where
  "getListeningPorts ss_tuln =
     (case exec (grep ''LISTEN'' ss_tuln) of
        Inl error \<Rightarrow> Inl error
      | Inr out \<Rightarrow>
          Inr (map (\<lambda>line.
                 let parts = split_ws line;
                     localAddr = or_default (at_index parts 4) [];
                     p = last (split_on CHR '':'' localAddr)
                 in \<lparr>port_protocol = at_index parts 0, port = p, address = localAddr\<rparr>)
               (filter (\<lambda>line. trim line \<noteq> []) (split_on CHR 0x0A out))))"

section \<open>Network monitor: one cycle's snapshot\<close>

text \<open>The \<open>currentState\<close> that \<open>monitor\<close> builds from the collector's two results.\<close>

definition make_state :: "string \<Rightarrow> connection list \<Rightarrow> listening_port list \<Rightarrow> snapshot" where
  "make_state ts conns lps =
     \<lparr>timestamp = ts, connections = conns, ports = lps,
      stats = \<lparr>totalConnections = length conns,
               establishedConnections = length (filter (\<lambda>c. state c = Some ''ESTAB'') conns),
               listeningPorts = length lps\<rparr>\<rparr>"

section \<open>Threat aggregator: JSON values\<close>

text \<open>
  A value as \<open>JSON.parse\<close> returns it. An object is its list of properties, each key
  once. A number is its exact value.
\<close>

datatype json =
  JNull
| JBool bool
| JNum rat
| JStr string
| JArr "json list"
| JObj "(string \<times> json) list"

text \<open>
  \<open>v.key\<close> for the keys the fetchers read (none of them names a built-in property): it
  throws on \<open>null\<close>, finds an object's own property, and is \<open>undefined\<close> (\<open>None\<close>)
  otherwise.
\<close>

definition get_prop :: "json \<Rightarrow> string \<Rightarrow> js_error + json option" where
  "get_prop v key =
     (case v of
        JNull \<Rightarrow> Inl (TypeError ''Cannot read properties of null'')
      | JObj kvs \<Rightarrow> Inr (map_of kvs key)
      | _ \<Rightarrow> Inr None)"

definition truthy :: "json option \<Rightarrow> bool" where
  "truthy v =
     (case v of
        None \<Rightarrow> False
      | Some JNull \<Rightarrow> False
      | Some (JBool b) \<Rightarrow> b
      | Some (JNum n) \<Rightarrow> n \<noteq> 0
      | Some (JStr s) \<Rightarrow> s \<noteq> []
      | Some _ \<Rightarrow> True)"

text \<open>\<open>x || d\<close>\<close>

definition or_json :: "json option \<Rightarrow> json \<Rightarrow> json" where
  "or_json x d = (case x of None \<Rightarrow> d | Some v \<Rightarrow> if truthy x then v else d)"

text \<open>
  \<open>v.length\<close>: throws on \<open>null\<close>; arrays and strings have a length, other values have
  none. An object's own property of that name is not looked up: the fetchers read
  \<open>length\<close> only of a value on which they call \<open>slice\<close> next, and an object has no
  \<open>slice\<close>, so the fetch fails whatever the length was.
\<close>

definition length_of :: "json \<Rightarrow> js_error + nat option" where
  "length_of v =
     (case v of
        JNull \<Rightarrow> Inl (TypeError ''Cannot read properties of null'')
      | JArr xs \<Rightarrow> Inr (Some (length xs))
      | JStr s \<Rightarrow> Inr (Some (length s))
      | _ \<Rightarrow> Inr None)"

text \<open>A \<open>map\<close> whose callback may throw: the first throw ends it.\<close>

fun map_throwing :: "('a \<Rightarrow> js_error + 'b) \<Rightarrow> 'a list \<Rightarrow> js_error + 'b list" where
  "map_throwing f [] = Inr []"
| "map_throwing f (x # xs) =
     (case f x of
        Inl e \<Rightarrow> Inl e
      | Inr y \<Rightarrow> (case map_throwing f xs of Inl e \<Rightarrow> Inl e | Inr ys \<Rightarrow> Inr (y # ys)))"

text \<open>
  \<open>v.slice(0, 10).map(f)\<close>: only an array has both methods; on a string \<open>slice\<close> works
  and \<open>map\<close> is missing, on the rest \<open>slice\<close> is missing.
\<close>

definition slice_map :: "json \<Rightarrow> (json \<Rightarrow> js_error + 'b) \<Rightarrow> js_error + 'b list" where
  "slice_map v f =
     (case v of
        JNull \<Rightarrow> Inl (TypeError ''Cannot read properties of null'')
      | JArr xs \<Rightarrow> map_throwing f (take 10 xs)
      | JStr s \<Rightarrow> Inl (TypeError ''map is not a function'')
      | _ \<Rightarrow> Inl (TypeError ''slice is not a function''))"

text \<open>Sequencing of steps that may throw.\<close>

definition and_then :: "js_error + 'a \<Rightarrow> ('a \<Rightarrow> js_error + 'b) \<Rightarrow> js_error + 'b" where
  "and_then r f = (case r of Inl e \<Rightarrow> Inl e | Inr x \<Rightarrow> f x)"

section \<open>Network monitor: the suspicious-port test on any value\<close>

text \<open>
  The callback of the suspicious-port rule, for any value that \<open>conn.peer\<close> may hold
  (\<open>None\<close> is \<open>undefined\<close>): a falsy value counts as port 0; a string is split and
  parsed; a truthy value that is not a string has no \<open>split\<close>, and the call throws.
\<close>

definition peer_is_suspicious :: "json option \<Rightarrow> js_error + bool" where
  "peer_is_suspicious peer_value =
     (if \<not> truthy peer_value then Inr (array_includes suspiciousPorts (Some 0))
      else (case peer_value of
              Some (JStr s) \<Rightarrow>
                Inr (array_includes suspiciousPorts (parseInt (last (split_on CHR '':'' s))))
            | _ \<Rightarrow> Inl (TypeError ''conn.peer.split is not a function'')))"

section \<open>Threat aggregator: feed fetchers\<close>

text \<open>
  What the network does with one request: it fails, or a reply arrives. A request that
  never completes is not among the outcomes: the source sets no timeout, and its promise
  would stay pending.
\<close>

datatype net_outcome =
  NetError string
| Reply nat string

record response =
  statusCode :: nat
  body :: string
  json :: json

text \<open>
  \<open>httpRequest(url, options)\<close>: rejects with the network's error, or with
  \<open>Failed to parse JSON\<close> when the body does not parse; an empty body gives \<open>null\<close>.
  \<open>JSON_parse\<close> is \<open>JSON.parse\<close>, \<open>Inl\<close> the message of its \<open>SyntaxError\<close>.
\<close>

definition httpRequest :: "(string \<Rightarrow> string + json) \<Rightarrow> net_outcome \<Rightarrow> js_error + response" where
  "httpRequest JSON_parse net =
     (case net of
        NetError msg \<Rightarrow> Inl (Error msg)
      | Reply code data \<Rightarrow>
          (case (if data \<noteq> [] then JSON_parse data else Inr JNull) of
             Inl msg \<Rightarrow> Inl (Error (''Failed to parse JSON: '' @ msg))
           | Inr j \<Rightarrow> Inr \<lparr>statusCode = code, body = data, json = j\<rparr>))"

text \<open>
  A normalised item: its \<open>type\<close>, the fields copied from the feed (\<open>None\<close> is
  \<open>undefined\<close>) and its \<open>severity\<close>.
\<close>

record threat_item =
  item_type :: string
  item_fields :: "(string \<times> json option) list"
  item_severity :: severity

text \<open>
  One feed's result. The result of a failed fetch has \<open>source\<close>, \<open>error\<close> and
  \<open>items\<close> only; \<open>fetched_at\<close> is the source's field \<open>timestamp\<close>.
\<close>

record source_result =
  source :: "string option"
  fetched_at :: "string option"
  count :: "nat option"
  items :: "threat_item list option"
  error :: "string option"

definition failed_result :: "string \<Rightarrow> js_error \<Rightarrow> source_result" where
  "failed_result src err =
     \<lparr>source = Some src, fetched_at = None, count = None, items = Some [],
      error = Some (message err)\<rparr>"

definition victim_item :: "json \<Rightarrow> js_error + threat_item" where
  "victim_item v =
     and_then (get_prop v ''post_title'') (\<lambda>post_title.
     and_then (get_prop v ''group_name'') (\<lambda>group_name.
     and_then (get_prop v ''discovered'') (\<lambda>discovered.
     and_then (get_prop v ''country'') (\<lambda>country.
     and_then (get_prop v ''post_url'') (\<lambda>post_url.
       Inr \<lparr>item_type = ''victim'',
            item_fields = [(''name'', Some (or_json post_title (JStr ''Unknown''))),
                      (''group'', group_name), (''date'', discovered),
                      (''country'', country), (''url'', post_url)],
            item_severity = high\<rparr>)))))"

definition fetchRansomwareVictims ::
  "(string \<Rightarrow> string + json) \<Rightarrow> string \<Rightarrow> net_outcome \<Rightarrow> source_result" where
  "fetchRansomwareVictims JSON_parse now net =
     (case and_then (httpRequest JSON_parse net) (\<lambda>response.
             let victims = json response
             in and_then (length_of victims) (\<lambda>n.
                and_then (slice_map victims victim_item) (\<lambda>its.
                  Inr \<lparr>source = Some ''Ransomware.live'', fetched_at = Some now,
                       count = n, items = Some its, error = None\<rparr>))) of
        Inl err \<Rightarrow> failed_result ''Ransomware.live'' err
      | Inr r \<Rightarrow> r)"

definition url_item :: "json \<Rightarrow> js_error + threat_item" where
  "url_item u =
     and_then (get_prop u ''url'') (\<lambda>url.
     and_then (get_prop u ''threat'') (\<lambda>threat.
     and_then (get_prop u ''tags'') (\<lambda>tags.
     and_then (get_prop u ''dateadded'') (\<lambda>dateadded.
     and_then (get_prop u ''url_status'') (\<lambda>url_status.
       Inr \<lparr>item_type = ''url'',
            item_fields = [(''url'', url), (''threat'', threat), (''tags'', tags),
                      (''date'', dateadded), (''status'', url_status)],
            item_severity = medium\<rparr>)))))"

definition fetchMaliciousURLs ::
  "(string \<Rightarrow> string + json) \<Rightarrow> string \<Rightarrow> net_outcome \<Rightarrow> source_result" where
  "fetchMaliciousURLs JSON_parse now net =
     (case and_then (httpRequest JSON_parse net) (\<lambda>response.
             let data = json response
             in and_then (get_prop data ''urls'') (\<lambda>data_urls.
                let urls = or_json data_urls (JArr [])
                in and_then (length_of urls) (\<lambda>n.
                   and_then (slice_map urls url_item) (\<lambda>its.
                     Inr \<lparr>source = Some ''URLhaus'', fetched_at = Some now,
                          count = n, items = Some its, error = None\<rparr>)))) of
        Inl err \<Rightarrow> failed_result ''URLhaus'' err
      | Inr r \<Rightarrow> r)"

text \<open>
  \<open>x >= 75\<close>: \<open>undefined\<close> compares as \<open>NaN\<close>, \<open>null\<close> and \<open>false\<close> as 0,
  \<open>true\<close> as 1, a number as itself. A string, an array or an object is first converted
  to a number, which \<open>coerced_ge_75\<close> stands for.
\<close>

definition ge_75 :: "(json \<Rightarrow> bool) \<Rightarrow> json option \<Rightarrow> bool" where
  "ge_75 coerced_ge_75 x =
     (case x of
        None \<Rightarrow> False
      | Some JNull \<Rightarrow> False
      | Some (JBool b) \<Rightarrow> False
      | Some (JNum n) \<Rightarrow> n \<ge> 75
      | Some v \<Rightarrow> coerced_ge_75 v)"

definition ioc_item :: "(json \<Rightarrow> bool) \<Rightarrow> json \<Rightarrow> js_error + threat_item" where
  "ioc_item coerced_ge_75 i =
     and_then (get_prop i ''ioc_type'') (\<lambda>ioc_type.
     and_then (get_prop i ''ioc'') (\<lambda>ioc.
     and_then (get_prop i ''threat_type'') (\<lambda>threat_type.
     and_then (get_prop i ''malware'') (\<lambda>malware.
     and_then (get_prop i ''confidence_level'') (\<lambda>confidence_level.
     and_then (get_prop i ''first_seen'') (\<lambda>first_seen.
       Inr \<lparr>item_type = ''ioc'',
            item_fields = [(''ioc_type'', ioc_type), (''value'', ioc), (''threat'', threat_type),
                      (''malware'', malware), (''confidence'', confidence_level),
                      (''date'', first_seen)],
            item_severity = (if ge_75 coerced_ge_75 confidence_level then high else medium)\<rparr>))))))"

definition fetchIOCs ::
  "(string \<Rightarrow> string + json) \<Rightarrow> (json \<Rightarrow> bool) \<Rightarrow> string \<Rightarrow> net_outcome \<Rightarrow> source_result" where
  "fetchIOCs JSON_parse coerced_ge_75 now net =
     (case and_then (httpRequest JSON_parse net) (\<lambda>response.
             let data = json response
             in and_then (get_prop data ''data'') (\<lambda>data_data.
                let iocs = or_json data_data (JArr [])
                in and_then (length_of iocs) (\<lambda>n.
                   and_then (slice_map iocs (ioc_item coerced_ge_75)) (\<lambda>its.
                     Inr \<lparr>source = Some ''ThreatFox'', fetched_at = Some now,
                          count = n, items = Some its, error = None\<rparr>)))) of
        Inl err \<Rightarrow> failed_result ''ThreatFox'' err
      | Inr r \<Rightarrow> r)"

section \<open>Threat aggregator: summary and cache\<close>

record source_entry =
  name :: "string option"
  status :: string
  entry_count :: nat

record summary =
  summary_timestamp :: string
  sources :: "source_entry list"
  totalThreats :: nat
  highSeverity :: nat

record cache_output =
  summary :: summary
  threats :: "source_result list"

text \<open>One promise of \<open>Promise.allSettled\<close>.\<close>

datatype settled =
  Fulfilled source_result
| Rejected js_error

definition settled_value :: "settled \<Rightarrow> source_result" where
  "settled_value r =
     (case r of
        Fulfilled v \<Rightarrow> v
      | Rejected reason \<Rightarrow>
          \<lparr>source = None, fetched_at = None, count = None, items = None,
           error = Some (message reason)\<rparr>)"

text \<open>The summary of \<open>aggregateThreats\<close>; \<open>entry_count\<close> is the entry's \<open>count\<close>.\<close>

definition calculate_summary :: "string \<Rightarrow> source_result list \<Rightarrow> summary" where
  "calculate_summary now ts =
     \<lparr>summary_timestamp = now,
      sources = map (\<lambda>t. \<lparr>name = source t,
                            status = (if or_default (error t) [] \<noteq> [] then ''error'' else ''ok''),
                            entry_count = (case count t of None \<Rightarrow> 0 | Some n \<Rightarrow> n)\<rparr>) ts,
      totalThreats =
        foldl (\<lambda>sum t. sum + (case items t of None \<Rightarrow> 0 | Some its \<Rightarrow> length its)) 0 ts,
      highSeverity =
        foldl (\<lambda>sum t. sum + (case items t of
                                  None \<Rightarrow> 0
                                | Some its \<Rightarrow> length (filter (\<lambda>i. item_severity i = high) its)))
          0 ts\<rparr>"

text \<open>
  \<open>aggregateThreats()\<close>: the three fetchers never reject, so every promise is fulfilled.
  \<open>JSON_stringify\<close> is \<open>JSON.stringify(output, null, 2)\<close> on the record \<open>{summary, threats}\<close>.
\<close>

definition aggregateThreats ::
  "(string \<Rightarrow> string + json) \<Rightarrow> (json \<Rightarrow> bool) \<Rightarrow> string \<Rightarrow> (cache_output \<Rightarrow> string) \<Rightarrow>
   string \<Rightarrow> string \<Rightarrow> net_outcome \<Rightarrow> net_outcome \<Rightarrow> net_outcome \<Rightarrow> cache_output io" where
  "aggregateThreats JSON_parse coerced_ge_75 now JSON_stringify DATA_DIR CACHE_FILE
     net_ransomware net_urlhaus net_threatfox =
     (let results = [Fulfilled (fetchRansomwareVictims JSON_parse now net_ransomware),
                     Fulfilled (fetchMaliciousURLs JSON_parse now net_urlhaus),
                     Fulfilled (fetchIOCs JSON_parse coerced_ge_75 now net_threatfox)];
          ts = map settled_value results;
          out = \<lparr>summary = calculate_summary now ts, threats = ts\<rparr>
      in io_bind (existsSync DATA_DIR) (\<lambda>ex.
         io_bind (if \<not> ex then mkdirSync DATA_DIR else io_return ()) (\<lambda>_.
         io_bind (writeFileSync CACHE_FILE (JSON_stringify out)) (\<lambda>_.
           io_return out))))"

section \<open>Sample inputs\<close>

definition conn_to :: "string \<Rightarrow> connection" where
  "conn_to p = \<lparr>protocol = Some ''tcp'', state = Some ''ESTAB'', recv_q = Some ''0'',
               send_q = Some ''0'', local = Some ''10.0.0.2:44321'', peer = Some p,
               process = ''unknown''\<rparr>"

definition lport :: "string \<Rightarrow> string \<Rightarrow> listening_port" where
  "lport proto p = \<lparr>port_protocol = Some proto, port = p, address = ''0.0.0.0:'' @ p\<rparr>"

text \<open>A snapshot with \<open>n\<close> connections to a web server and no listening port.\<close>

definition quiet :: "nat \<Rightarrow> snapshot" where
  "quiet n = make_state ''2024-01-01T00:00:00.000Z'' (replicate n (conn_to ''93.184.216.34:443'')) []"

text \<open>A snapshot with the given listening ports and no connection.\<close>

definition listening :: "listening_port list \<Rightarrow> snapshot" where
  "listening lps = make_state ''2024-01-01T00:00:00.000Z'' [] lps"

text \<open>An installation under \<open>/opt/home-soc\<close> with no webhook configured.\<close>

definition sample_config :: config where
  "sample_config =
     \<lparr>checkInterval = 60000, alertWebhook = None,
      logFile = ''/opt/home-soc/logs/network-monitor.log'',
      stateFile = ''/opt/home-soc/data/network-state.json'',
      threatsFile = ''/opt/home-soc/data/threats.json''\<rparr>"

definition empty_world :: world where
  "empty_world = \<lparr>files = Map.empty, dirs = [], write_fault = None, console = [], outbox = []\<rparr>"

definition world_with_file :: "string \<Rightarrow> string \<Rightarrow> world" where
  "world_with_file p text = empty_world\<lparr>files := [p \<mapsto> text], dirs := [dirname p]\<rparr>"

text \<open>
  A numeric segment, in the plain sense of the word: a non-empty run of decimal digits.
\<close>

definition numeric_segment :: "string \<Rightarrow> bool" where
  "numeric_segment s = (s \<noteq> [] \<and> list_all (\<lambda>c. c \<in> set ''0123456789'') s)"

text \<open>
  The percentage in exact arithmetic, \<open>round((c/p - 1) * 100)\<close> with a tie going up as in
  \<open>Math.round\<close>, for \<open>p > 0\<close>; and the case that the exact value lies half-way between
  two integers.
\<close>

definition exact_percentage :: "nat \<Rightarrow> nat \<Rightarrow> int" where
  "exact_percentage c p = round ((of_nat c / of_nat p - 1) * 100 :: rat)"

definition half_way :: "nat \<Rightarrow> nat \<Rightarrow> bool" where
  "half_way c p = (frac ((of_nat c / of_nat p - 1) * 100 :: rat) = 1 / 2)"

text \<open>
  What \<open>ss -tuln\<close> prints on a host with one UDP socket and no listening TCP socket, and
  on a host where \<open>sshd\<close> listens.
\<close>

definition ss_no_listener :: string where
  "ss_no_listener =
     ''Netid State  Recv-Q Send-Q Local Address:Port Peer Address:Port'' @ [CHR 0x0A] @
     ''udp   UNCONN 0      0      127.0.0.53%lo:53  0.0.0.0:*'' @ [CHR 0x0A]"

definition ss_one_listener :: string where
  "ss_one_listener =
     ''Netid State  Recv-Q Send-Q Local Address:Port Peer Address:Port'' @ [CHR 0x0A] @
     ''tcp   LISTEN 0      128    0.0.0.0:22        0.0.0.0:*'' @ [CHR 0x0A]"

text \<open>A disk that holds an earlier state file and takes no more writes.\<close>

definition full_disk :: world where
  "full_disk = (world_with_file (stateFile sample_config) ''{}'')\<lparr>write_fault := Some ''ENOSPC''\<rparr>"

text \<open>A stand-in for \<open>new URL\<close> that knows one webhook address.\<close>

definition sample_URL :: "string \<Rightarrow> url option" where
  "sample_URL s =
     (if s = ''https://discord.com/api/webhooks/1/abc''
      then Some \<lparr>hostname = ''discord.com'', pathname = ''/api/webhooks/1/abc'', search = []\<rparr>
      else None)"

definition spike_alert :: anomaly where
  "spike_alert = \<lparr>atype = connection_spike, severity = high, details = Spike 30 65 ''117%'',
                  detected_at = ''2024-01-01T00:00:00.000Z''\<rparr>"

text \<open>One entry of the ransomware feed, and a stand-in for \<open>JSON.parse\<close> on two bodies.\<close>

definition victim :: "string \<Rightarrow> json" where
  "victim title = JObj [(''post_title'', JStr title), (''group_name'', JStr ''lockbit3''),
                        (''discovered'', JStr ''2024-01-01''), (''country'', JStr ''US''),
                        (''post_url'', JNull)]"

definition sample_parse :: "string \<Rightarrow> string + json" where
  "sample_parse text =
     (if text = ''[1 victim]'' then Inr (JArr [victim ''ACME''])
      else if text = ''[11 victims]'' then Inr (JArr (replicate 11 (victim ''ACME'')))
      else Inl ''Unexpected token'')"

section \<open>Properties of double-precision rounding\<close>

lemma round_even_error: "\<bar>of_int (round_even y) - y\<bar> \<le> 1 / 2"
proof -
  have "of_int \<lfloor>y\<rfloor> \<le> y" "y < of_int \<lfloor>y\<rfloor> + 1"
    by linarith+
  then show ?thesis
    by (auto simp: round_even_def Let_def)
qed

lemma exponent_lower:
  assumes "0 < x"
  shows "2 powi (exponent x) \<le> x"
proof (cases "1 \<le> x")
  case True
  then have pos: "0 < \<lfloor>x\<rfloor>" by linarith
  from bitlen_bounds [OF pos] have "2 ^ nat (bitlen \<lfloor>x\<rfloor> - 1) \<le> \<lfloor>x\<rfloor>" by simp
  then have "(of_int (2 ^ nat (bitlen \<lfloor>x\<rfloor> - 1)) :: rat) \<le> of_int \<lfloor>x\<rfloor>"
    by (simp only: of_int_le_iff)
  then have le: "(2 :: rat) ^ nat (bitlen \<lfloor>x\<rfloor> - 1) \<le> x"
    by (simp add: order_trans [OF _ of_int_floor_le])
  from pos have "1 \<le> bitlen \<lfloor>x\<rfloor>"
    by (simp add: bitlen_alt_def)
  then have "(2 :: rat) powi (bitlen \<lfloor>x\<rfloor> - 1) = 2 ^ nat (bitlen \<lfloor>x\<rfloor> - 1)"
    by (simp add: power_int_def)
  with le True show ?thesis
    by (simp add: exponent_def)
next
  case False
  let ?Y = "\<lceil>1 / x\<rceil>"
  let ?m = "bitlen (?Y - 1)"
  from False assms have "1 < 1 / x" by simp
  then have Y: "1 < ?Y" by linarith
  then have pos: "0 < ?Y - 1" by simp
  from bitlen_bounds [OF pos] have "?Y - 1 < 2 ^ nat ?m" by simp
  then have "?Y \<le> 2 ^ nat ?m" by simp
  then have "(of_int ?Y :: rat) \<le> of_int (2 ^ nat ?m)"
    by (simp only: of_int_le_iff)
  then have "1 / x \<le> 2 ^ nat ?m"
    by (simp add: order_trans [OF le_of_int_ceiling])
  with assms have "1 / 2 ^ nat ?m \<le> x"
    by (simp add: field_simps)
  moreover have "(2 :: rat) powi (- ?m) = 1 / 2 ^ nat ?m"
    using bitlen_nonneg [of "?Y - 1"] by (simp add: power_int_def field_simps)
  ultimately show ?thesis
    using False by (simp add: exponent_def)
qed

text \<open>Rounding to a double changes a value by at most the fraction \<open>2^-53\<close> of it.\<close>

lemma fl_error: "\<bar>fl x - x\<bar> \<le> \<bar>x\<bar> / 2 ^ 53"
proof (cases "x = 0")
  case True
  then show ?thesis by (simp add: fl_def)
next
  case False
  define q :: rat where "q = 2 powi (exponent \<bar>x\<bar> - 52)"
  have qpos: "0 < q" by (simp add: q_def)
  have "q = 2 powi (exponent \<bar>x\<bar>) / 2 ^ 52"
    by (simp add: q_def power_int_diff)
  also have "\<dots> \<le> \<bar>x\<bar> / 2 ^ 52"
    using exponent_lower [of "\<bar>x\<bar>"] False by (simp add: divide_right_mono)
  finally have q: "q / 2 \<le> \<bar>x\<bar> / 2 ^ 53" by simp
  have "fl x - x = (of_int (round_even (x / q)) - x / q) * q"
    using False qpos by (simp add: fl_def q_def [symmetric] Let_def field_simps)
  then have "\<bar>fl x - x\<bar> = \<bar>of_int (round_even (x / q)) - x / q\<bar> * q"
    using qpos by (simp add: abs_mult)
  also have "\<dots> \<le> 1 / 2 * q"
    using round_even_error [of "x / q"] qpos by (intro mult_right_mono) simp_all
  finally show ?thesis using q by simp
qed

text \<open>
  The three rounded operations together: where the spike rule fires with \<open>p > 0\<close>, the
  double differs from the exact value \<open>(c/p - 1) * 100\<close> by less than \<open>1/(2p)\<close>.
\<close>

lemma percentage_close:
  assumes p: "0 < p" and spike: "2 * p < c" and len: "c < 2 ^ 32"
  shows "\<bar>fl (fl (fl (of_nat c / of_nat p) - 1) * 100) - (of_nat c / of_nat p - 1) * 100\<bar>
           < 1 / (2 * of_nat p)"
proof -
  define x :: rat where "x = of_nat c / of_nat p"
  define x1 where "x1 = fl x"
  define x2 where "x2 = fl (x1 - 1)"
  define x3 where "x3 = fl (x2 * 100)"
  have P: "(0 :: rat) < of_nat p" using p by simp
  have "(of_nat (2 * p) :: rat) < of_nat c" using spike by (simp only: of_nat_less_iff)
  then have x: "2 < x" using P by (simp add: x_def field_simps)
  have e1: "\<bar>x1 - x\<bar> \<le> x / 9007199254740992"
    using fl_error [of x] x by (simp add: x1_def)
  then have x1: "1 < x1" using x by linarith
  have e2: "\<bar>x2 - (x1 - 1)\<bar> \<le> x1 / 9007199254740992 - 1 / 9007199254740992"
    using fl_error [of "x1 - 1"] x1 by (simp add: x2_def diff_divide_distrib)
  then have x2: "0 < x2" using x1 by linarith
  have e3: "\<bar>x3 - 100 * x2\<bar> \<le> 100 * (x2 / 9007199254740992)"
    using fl_error [of "x2 * 100"] x2 by (simp add: x3_def abs_mult mult.commute)
  from e1 e2 e3 x have "\<bar>x3 - (100 * x - 100)\<bar> \<le> 400 * (x / 9007199254740992)"
    by linarith
  also have "\<dots> < 1 / (2 * of_nat p)"
  proof -
    define A :: rat where "A = of_nat c * 800 / 2 ^ 53"
    have "(of_nat c :: rat) < of_nat (2 ^ 32)" using len by (simp only: of_nat_less_iff)
    then have "A < 1" by (simp add: A_def)
    then have "A / (2 * of_nat p) < 1 / (2 * of_nat p)"
      using P by (intro divide_strict_right_mono) simp_all
    moreover have "400 * (x / 9007199254740992) = A / (2 * of_nat p)"
      using P by (simp add: x_def A_def)
    ultimately show ?thesis by simp
  qed
  finally show ?thesis
    by (simp add: x3_def x2_def x1_def x_def algebra_simps)
qed

text \<open>
  \<open>Math.round\<close> of a value close to \<open>v\<close>, where \<open>v + 1/2\<close> is a multiple of \<open>1/d\<close>
  and the distance is below \<open>1/d\<close>: the rounded \<open>v\<close> or one less, and the rounded \<open>v\<close>
  unless \<open>v + 1/2\<close> is an integer.
\<close>

lemma floor_near:
  fixes v y :: rat and d :: int
  assumes d: "0 < d" and grid: "(v + 1 / 2) * of_int d = of_int n"
    and close: "\<bar>y - v\<bar> < 1 / of_int d"
  shows "round v - 1 \<le> \<lfloor>y + 1 / 2\<rfloor> \<and> \<lfloor>y + 1 / 2\<rfloor> \<le> round v
         \<and> (v + 1 / 2 \<noteq> of_int (round v) \<longrightarrow> \<lfloor>y + 1 / 2\<rfloor> = round v)"
proof -
  define k where "k = round v"
  define D :: rat where "D = of_int d"
  have D: "0 < D" "1 \<le> D" using d by (simp_all add: D_def)
  have close': "\<bar>y - v\<bar> < 1 / D" using close by (simp add: D_def)
  have k: "of_int k \<le> v + 1 / 2" "v + 1 / 2 < of_int k + 1"
    unfolding k_def round_def by linarith+
  define r where "r = n - k * d"
  have r: "of_int r = (v + 1 / 2 - of_int k) * D"
    using grid by (simp add: r_def D_def algebra_simps)
  have step: "1 / D \<le> 1" using D by simp
  have upper: "\<lfloor>y + 1 / 2\<rfloor> \<le> k"
  proof -
    have "(v + 1 / 2 - of_int k) * D < 1 * D"
      using k D by (intro mult_strict_right_mono) simp_all
    then have "(of_int r :: rat) < of_int d" using r by (simp add: D_def)
    then have "r < d" by (simp only: of_int_less_iff)
    then have "r + 1 \<le> d" by simp
    then have "(of_int (r + 1) :: rat) \<le> of_int d" by (simp only: of_int_le_iff)
    then have "(v + 1 / 2 - of_int k) * D + 1 \<le> D" using r by (simp add: D_def)
    then have "v + 1 / 2 - of_int k + 1 / D \<le> 1" using D by (simp add: field_simps)
    with close' have "y + 1 / 2 < of_int k + 1" by linarith
    then have "y + 1 / 2 < of_int (k + 1)" by simp
    then have "\<lfloor>y + 1 / 2\<rfloor> < k + 1" by (simp only: floor_less_iff)
    then show ?thesis by simp
  qed
  have lower: "k - 1 \<le> \<lfloor>y + 1 / 2\<rfloor>"
  proof -
    from close' k step have "of_int k - 1 \<le> y + 1 / 2" by linarith
    then have "of_int (k - 1) \<le> y + 1 / 2" by simp
    then show ?thesis by (simp only: le_floor_iff)
  qed
  have exact: "\<lfloor>y + 1 / 2\<rfloor> = k" if "v + 1 / 2 \<noteq> of_int k"
  proof -
    from that k have "0 < (v + 1 / 2 - of_int k) * D" using D by simp
    then have "(of_int 0 :: rat) < of_int r" using r by simp
    then have "0 < r" by (simp only: of_int_less_iff)
    then have "1 \<le> r" by simp
    then have "(of_int 1 :: rat) \<le> of_int r" by (simp only: of_int_le_iff)
    then have "1 \<le> (v + 1 / 2 - of_int k) * D" using r by simp
    then have "1 / D \<le> v + 1 / 2 - of_int k" using D by (simp add: field_simps)
    with close' have "of_int k \<le> y + 1 / 2" by linarith
    then have "k \<le> \<lfloor>y + 1 / 2\<rfloor>" by (simp only: le_floor_iff)
    with upper show ?thesis by simp
  qed
  from upper lower exact show ?thesis by (simp add: k_def)
qed

lemma half_way_iff:
  "half_way c p \<longleftrightarrow>
     (of_nat c / of_nat p - 1) * 100 + 1 / 2 = (of_int (exact_percentage c p) :: rat)"
proof -
  define v :: rat where "v = (of_nat c / of_nat p - 1) * 100"
  have "frac v = 1 / 2 \<longleftrightarrow> v + 1 / 2 = of_int (round v)"
  proof
    assume "frac v = 1 / 2"
    then have v: "v = of_int \<lfloor>v\<rfloor> + 1 / 2" by (simp add: frac_def)
    then have "v + 1 / 2 = of_int (\<lfloor>v\<rfloor> + 1)" by simp
    moreover from this have "\<lfloor>v + 1 / 2\<rfloor> = \<lfloor>v\<rfloor> + 1" by (simp only: floor_of_int)
    ultimately show "v + 1 / 2 = of_int (round v)" by (simp add: round_def)
  next
    assume "v + 1 / 2 = of_int (round v)"
    then have "v = of_int (round v - 1) + 1 / 2" by simp
    then have "\<lfloor>v\<rfloor> = round v - 1" by (intro floor_unique) linarith+
    with \<open>v = of_int (round v - 1) + 1 / 2\<close> show "frac v = 1 / 2"
      by (simp add: frac_def)
  qed
  then show ?thesis by (simp add: half_way_def exact_percentage_def v_def)
qed

text \<open>The text of the percentage where the spike rule fires with \<open>p > 0\<close>.\<close>

lemma increase_positive:
  assumes p: "0 < p" and spike: "2 * p < c" and len: "c < 2 ^ 32"
  shows "\<exists>n. increase c p = decimal (nat n) @ ''%''
           \<and> n = \<lfloor>fl (fl (fl (of_nat c / of_nat p) - 1) * 100) + 1 / 2\<rfloor>
           \<and> exact_percentage c p - 1 \<le> n \<and> n \<le> exact_percentage c p
           \<and> (\<not> half_way c p \<longrightarrow> n = exact_percentage c p)"
proof -
  define v :: rat where "v = (of_nat c / of_nat p - 1) * 100"
  define y :: rat where "y = fl (fl (fl (of_nat c / of_nat p) - 1) * 100)"
  define n where "n = \<lfloor>y + 1 / 2\<rfloor>"
  have P: "(0 :: rat) < of_nat p" using p by simp
  have close: "\<bar>y - v\<bar> < 1 / of_int (2 * int p)"
    using percentage_close [OF p spike len] by (simp add: y_def v_def)
  have "(of_nat c :: rat) = of_int (int c)" by simp
  have grid: "(v + 1 / 2) * of_int (2 * int p) = of_int (200 * (int c - int p) + int p)"
    using P by (simp add: v_def field_simps)
  have d: "0 < 2 * int p" using p by simp
  from floor_near [OF d grid close]
  have near: "round v - 1 \<le> n" "n \<le> round v"
    "v + 1 / 2 \<noteq> of_int (round v) \<longrightarrow> n = round v"
    by (simp_all add: n_def)
  have "(of_nat (2 * p) :: rat) < of_nat c" using spike by (simp only: of_nat_less_iff)
  then have "2 < (of_nat c :: rat) / of_nat p" using P by (simp add: field_simps)
  then have "1 < (of_nat c :: rat) / of_nat p - 1" by linarith
  then have "1 * 100 < ((of_nat c :: rat) / of_nat p - 1) * 100"
    by (intro mult_strict_right_mono) simp_all
  then have "100 < v" by (simp add: v_def)
  then have "100 \<le> round v" by (simp add: round_def le_floor_iff)
  with near(1) have npos: "0 \<le> n" by simp
  have "increase c p = number_text (Finite (of_int n)) @ ''%''"
    using p by (simp add: increase_def js_divide_def js_minus_def js_times_def Math_round_def
        n_def y_def)
  with npos have shown: "increase c p = decimal (nat n) @ ''%''"
    by (simp add: number_text_def)
  have exact: "exact_percentage c p = round v"
    by (simp add: exact_percentage_def v_def)
  have "\<not> half_way c p \<longrightarrow> v + 1 / 2 \<noteq> of_int (round v)"
    by (simp add: half_way_iff exact v_def)
  with near shown exact show ?thesis
    by (auto simp: n_def y_def)
qed

lemma increase_zero: "0 < c \<Longrightarrow> increase c 0 = ''Infinity%''"
  by (simp add: increase_def js_divide_def js_minus_def js_times_def Math_round_def number_text_def)

lemma increase_samples:
  "increase 65 30 = ''117%''" "increase 87 40 = ''117%''" "increase 81 40 = ''102%''"
  by code_simp+

lemma exact_samples:
  "exact_percentage 65 30 = 117" "exact_percentage 87 40 = 118" "exact_percentage 81 40 = 103"
  "\<not> half_way 65 30" "half_way 87 40"
  by code_simp+

section \<open>Properties of the anomaly detector\<close>

lemmas parseInt_eval = parseInt_def strip_sign_def strip_prefix_def is_digit_def digit_of_def
  digits_value_def js_space_def

lemma quiet_simps: "length (connections (quiet n)) = n" "ports (quiet n) = []"
  by (simp_all add: quiet_def make_state_def)

lemma listening_simps: "ports (listening lps) = lps" "connections (listening lps) = []"
  by (simp_all add: listening_def make_state_def)

text \<open>The events of the spike rule, given in full by the two counts.\<close>

lemma spike_events:
  "filter (\<lambda>a. atype a = connection_spike) (detectAnomalies now cur (Some prev)) =
     (if 2 * length (connections prev) < length (connections cur) \<and> 50 < length (connections cur)
      then [\<lparr>atype = connection_spike, severity = high,
             details = Spike (length (connections prev)) (length (connections cur))
                         (increase (length (connections cur)) (length (connections prev))),
             detected_at = now\<rparr>]
      else [])"
  by (simp add: detectAnomalies_def Let_def mult.commute)

text \<open>On the quiet snapshots only the spike rule can fire.\<close>

lemma detect_quiet:
  "detectAnomalies now (quiet c) (Some (quiet p)) =
     (if 2 * p < c \<and> 50 < c
      then [\<lparr>atype = connection_spike, severity = high,
             details = Spike p c (increase c p), detected_at = now\<rparr>]
      else [])"
  by (simp add: detectAnomalies_def Let_def quiet_def make_state_def conn_to_def peerPort_def
      parseInt_eval array_includes_def suspiciousPorts_def mult.commute)

text \<open>
  C1. With a previous snapshot, \<open>detectAnomalies\<close> emits a \<open>connection_spike\<close> event of
  severity \<open>high\<close> if and only if the current number of connections \<open>c\<close> and the previous
  number \<open>p\<close> satisfy \<open>c > 2p\<close> and \<open>c > 50\<close>, both strictly. The events of that type are
  given in full by the two counts: nothing else of the snapshots, so no other rule's
  outcome, changes them.
\<close>

theorem connection_spike_iff:
  "((\<exists>a \<in> set (detectAnomalies now cur (Some prev)).
        atype a = connection_spike \<and> severity a = high)
      \<longleftrightarrow> (2 * length (connections prev) < length (connections cur)
            \<and> 50 < length (connections cur)))
   \<and> filter (\<lambda>a. atype a = connection_spike) (detectAnomalies now cur (Some prev)) =
     (if 2 * length (connections prev) < length (connections cur) \<and> 50 < length (connections cur)
      then [\<lparr>atype = connection_spike, severity = high,
             details = Spike (length (connections prev)) (length (connections cur))
                         (increase (length (connections cur)) (length (connections prev))),
             detected_at = now\<rparr>]
      else [])"
  by (auto simp add: detectAnomalies_def Let_def)

text \<open>
  The rule at 51 connections after none (it fires), at the two boundaries \<open>c = 50\<close> and
  \<open>c = 2p\<close>, at a rise from 1 to 3, and at 65 after 30 (it fires).
\<close>

theorem connection_spike_iff_witness:
  "(\<exists>a \<in> set (detectAnomalies ''t'' (quiet 51) (Some (quiet 0))).
       atype a = connection_spike \<and> severity a = high)
   \<and> filter (\<lambda>a. atype a = connection_spike)
        (detectAnomalies ''t'' (quiet 50) (Some (quiet 20))) = []
   \<and> filter (\<lambda>a. atype a = connection_spike)
        (detectAnomalies ''t'' (quiet 60) (Some (quiet 30))) = []
   \<and> filter (\<lambda>a. atype a = connection_spike)
        (detectAnomalies ''t'' (quiet 3) (Some (quiet 1))) = []
   \<and> filter (\<lambda>a. atype a = connection_spike)
        (detectAnomalies ''t'' (quiet 65) (Some (quiet 30))) =
       [\<lparr>atype = connection_spike, severity = high, details = Spike 30 65 ''117%'',
         detected_at = ''t''\<rparr>]"
  using connection_spike_iff [of "''t''" "quiet 51" "quiet 0"]
        connection_spike_iff [of "''t''" "quiet 50" "quiet 20"]
        connection_spike_iff [of "''t''" "quiet 60" "quiet 30"]
        connection_spike_iff [of "''t''" "quiet 3" "quiet 1"]
        connection_spike_iff [of "''t''" "quiet 65" "quiet 30"]
  by (simp add: quiet_simps increase_samples)

text \<open>
  C2. With a previous snapshot, a \<open>new_listening_port\<close> event of severity \<open>medium\<close> is
  emitted if and only if some port number of \<open>current.ports\<close> does not occur in
  \<open>previous.ports\<close>. There is at most one such event, and its details are exactly the
  current ports whose port number is new: the protocol plays no part, so a current port
  whose number the previous snapshot has under any protocol is not among them.
\<close>

theorem new_listening_port_rule:
  "((\<exists>a \<in> set (detectAnomalies now cur (Some prev)).
        atype a = new_listening_port \<and> severity a = medium)
      \<longleftrightarrow> port ` set (ports cur) - port ` set (ports prev) \<noteq> {})
   \<and> filter (\<lambda>a. atype a = new_listening_port) (detectAnomalies now cur (Some prev)) =
     (if filter (\<lambda>q. port q \<notin> port ` set (ports prev)) (ports cur) = [] then []
      else [\<lparr>atype = new_listening_port, severity = medium,
             details = NewPorts (filter (\<lambda>q. port q \<notin> port ` set (ports prev)) (ports cur)),
             detected_at = now\<rparr>])
   \<and> (\<forall>a \<in> set (detectAnomalies now cur (Some prev)). \<forall>qs.
        details a = NewPorts qs \<longrightarrow>
          set qs = {q \<in> set (ports cur). port q \<notin> port ` set (ports prev)})"
proof -
  let ?fresh = "filter (\<lambda>q. port q \<notin> port ` set (ports prev)) (ports cur)"
  have nonempty: "?fresh \<noteq> [] \<longleftrightarrow> port ` set (ports cur) - port ` set (ports prev) \<noteq> {}"
    by (auto simp: filter_empty_conv)
  have events: "filter (\<lambda>a. atype a = new_listening_port)
        (detectAnomalies now cur (Some prev)) =
     (if ?fresh = [] then []
      else [\<lparr>atype = new_listening_port, severity = medium,
             details = NewPorts ?fresh, detected_at = now\<rparr>])"
    by (simp add: detectAnomalies_def Let_def)
  have carried: "\<forall>a \<in> set (detectAnomalies now cur (Some prev)). \<forall>qs.
        details a = NewPorts qs \<longrightarrow>
          set qs = {q \<in> set (ports cur). port q \<notin> port ` set (ports prev)}"
    by (auto simp: detectAnomalies_def Let_def split: if_splits)
  have "(\<exists>a \<in> set (detectAnomalies now cur (Some prev)).
        atype a = new_listening_port \<and> severity a = medium) \<longleftrightarrow> ?fresh \<noteq> []"
    by (auto simp: detectAnomalies_def Let_def split: if_splits)
  with nonempty events carried show ?thesis
    by blast
qed

text \<open>
  Port 22 was open on TCP; now it is open on TCP and UDP, and 8080 and 5353 are new. The
  one event carries 8080 and 5353, and not the UDP listener on 22.
\<close>

theorem new_listening_port_rule_witness:
  "filter (\<lambda>a. atype a = new_listening_port)
     (detectAnomalies ''t''
        (listening [lport ''tcp'' ''22'', lport ''udp'' ''22'', lport ''tcp'' ''8080'', lport ''udp'' ''5353''])
        (Some (listening [lport ''tcp'' ''22'']))) =
     [\<lparr>atype = new_listening_port, severity = medium,
       details = NewPorts [lport ''tcp'' ''8080'', lport ''udp'' ''5353''], detected_at = ''t''\<rparr>]
   \<and> (\<exists>a \<in> set (detectAnomalies ''t''
        (listening [lport ''tcp'' ''22'', lport ''udp'' ''22'', lport ''tcp'' ''8080'', lport ''udp'' ''5353''])
        (Some (listening [lport ''tcp'' ''22'']))).
        atype a = new_listening_port \<and> severity a = medium)"
  using new_listening_port_rule [of "''t''"
      "listening [lport ''tcp'' ''22'', lport ''udp'' ''22'', lport ''tcp'' ''8080'', lport ''udp'' ''5353'']"
      "listening [lport ''tcp'' ''22'']"]
  by (simp add: listening_simps lport_def)

text \<open>
  C8, as the code has it. A spike event carries the two counts and the text of the
  percentage. With \<open>p > 0\<close> (and \<open>c\<close> an array length, below \<open>2^32\<close>) the text is the
  decimal form of \<open>Math.round\<close> of the double-precision value of \<open>(c/p - 1) * 100\<close>;
  that integer is the exactly rounded percentage or one less, and it is the exactly
  rounded percentage whenever the exact value does not lie half-way between two
  integers. With \<open>p = 0\<close> the division is not guarded and the text is \<open>Infinity%\<close>.
\<close>

theorem spike_percentage:
  assumes "a \<in> set (detectAnomalies now cur (Some prev))" and "atype a = connection_spike"
    and "c = length (connections cur)" and "p = length (connections prev)" and "c < 2 ^ 32"
  shows "(0 < p \<longrightarrow>
            (\<exists>n. details a = Spike p c (decimal (nat n) @ ''%'')
               \<and> n = \<lfloor>fl (fl (fl (of_nat c / of_nat p) - 1) * 100) + 1 / 2\<rfloor>
               \<and> exact_percentage c p - 1 \<le> n \<and> n \<le> exact_percentage c p
               \<and> (\<not> half_way c p \<longrightarrow> n = exact_percentage c p)))
         \<and> (p = 0 \<longrightarrow> details a = Spike 0 c ''Infinity%'')"
proof -
  from assms(1,2) have "a \<in> set (filter (\<lambda>a. atype a = connection_spike)
                                (detectAnomalies now cur (Some prev)))"
    by simp
  with assms(3,4) have fires: "2 * p < c" "50 < c"
    and a: "details a = Spike p c (increase c p)"
    by (auto simp: spike_events split: if_splits)
  have zero: "p = 0 \<longrightarrow> details a = Spike 0 c ''Infinity%''"
    using a fires(2) by (auto simp: increase_zero)
  have "0 < p \<longrightarrow>
            (\<exists>n. details a = Spike p c (decimal (nat n) @ ''%'')
               \<and> n = \<lfloor>fl (fl (fl (of_nat c / of_nat p) - 1) * 100) + 1 / 2\<rfloor>
               \<and> exact_percentage c p - 1 \<le> n \<and> n \<le> exact_percentage c p
               \<and> (\<not> half_way c p \<longrightarrow> n = exact_percentage c p))"
  proof
    assume "0 < p"
    from increase_positive [OF this fires(1) assms(5)] a
    show "\<exists>n. details a = Spike p c (decimal (nat n) @ ''%'')
               \<and> n = \<lfloor>fl (fl (fl (of_nat c / of_nat p) - 1) * 100) + 1 / 2\<rfloor>
               \<and> exact_percentage c p - 1 \<le> n \<and> n \<le> exact_percentage c p
               \<and> (\<not> half_way c p \<longrightarrow> n = exact_percentage c p)"
      by auto
  qed
  with zero show ?thesis by blast
qed

text \<open>
  65 connections after 30: the exact value 116.66... is not half-way, and the text is the
  exactly rounded 117. 51 connections after none: the text is \<open>Infinity%\<close>.
\<close>

theorem spike_percentage_witness:
  "detectAnomalies ''t'' (quiet 65) (Some (quiet 30)) =
     [\<lparr>atype = connection_spike, severity = high, details = Spike 30 65 ''117%'',
       detected_at = ''t''\<rparr>]
   \<and> exact_percentage 65 30 = 117 \<and> \<not> half_way 65 30
   \<and> (\<exists>n. Spike 30 65 ''117%'' = Spike 30 65 (decimal (nat n) @ ''%'') \<and> n = exact_percentage 65 30)
   \<and> detectAnomalies ''t'' (quiet 51) (Some (quiet 0)) =
     [\<lparr>atype = connection_spike, severity = high, details = Spike 0 51 ''Infinity%'',
       detected_at = ''t''\<rparr>]"
  using spike_percentage [of "\<lparr>atype = connection_spike, severity = high,
            details = Spike 30 65 ''117%'', detected_at = ''t''\<rparr>" "''t''" "quiet 65" "quiet 30" 65 30]
        spike_percentage [of "\<lparr>atype = connection_spike, severity = high,
            details = Spike 0 51 ''Infinity%'', detected_at = ''t''\<rparr>" "''t''" "quiet 51" "quiet 0" 51 0]
  by (simp add: detect_quiet increase_samples increase_zero exact_samples quiet_simps)

text \<open>
  C8, as the claim states it, fails. 87 connections after 40: the exact value is 117.5 and
  rounds to 118, the doubles give 117.49999999999999 and the event carries 117. 51
  connections after none: the event is emitted, and what it carries is not a percentage.
\<close>

theorem spike_percentage_counterexample:
  "detectAnomalies ''t'' (quiet 87) (Some (quiet 40)) =
     [\<lparr>atype = connection_spike, severity = high, details = Spike 40 87 ''117%'',
       detected_at = ''t''\<rparr>]
   \<and> exact_percentage 87 40 = 118
   \<and> detectAnomalies ''t'' (quiet 51) (Some (quiet 0)) =
     [\<lparr>atype = connection_spike, severity = high, details = Spike 0 51 ''Infinity%'',
       detected_at = ''t''\<rparr>]"
  by (simp add: detect_quiet increase_samples increase_zero exact_samples)

text \<open>The events of the suspicious-port rule, given in full by the current connections.\<close>

lemma suspicious_events:
  "filter (\<lambda>a. atype a = suspicious_port) (detectAnomalies now cur (Some prev)) =
     (if filter (\<lambda>c. array_includes suspiciousPorts (peerPort c)) (connections cur) = [] then []
      else [\<lparr>atype = suspicious_port, severity = critical,
             details = SuspiciousConns
               (filter (\<lambda>c. array_includes suspiciousPorts (peerPort c)) (connections cur)),
             detected_at = now\<rparr>])"
  by (simp add: detectAnomalies_def Let_def)

lemma suspicious_carried:
  "a \<in> set (detectAnomalies now cur (Some before)) \<Longrightarrow> details a = SuspiciousConns cs \<Longrightarrow>
   cs = filter (\<lambda>c. array_includes suspiciousPorts (peerPort c)) (connections cur)"
  by (auto simp: detectAnomalies_def Let_def split: if_splits)

lemma suspicious_present:
  "filter (\<lambda>c. array_includes suspiciousPorts (peerPort c)) (connections cur) \<noteq> [] \<Longrightarrow>
   \<lparr>atype = suspicious_port, severity = critical,
     details = SuspiciousConns
       (filter (\<lambda>c. array_includes suspiciousPorts (peerPort c)) (connections cur)),
     detected_at = now\<rparr> \<in> set (detectAnomalies now cur (Some before))"
  by (simp add: detectAnomalies_def Let_def)

text \<open>When the rule's test is true of a connection.\<close>

lemma suspicious_iff:
  "array_includes suspiciousPorts (peerPort conn) \<longleftrightarrow>
     (\<exists>p n. peer conn = Some p \<and> p \<noteq> [] \<and> parseInt (last (split_on CHR '':'' p)) = Some n
        \<and> n \<in> set suspiciousPorts)"
  by (cases "peer conn")
     (auto simp: peerPort_def array_includes_def suspiciousPorts_def split: option.splits)

text \<open>On a peer that is a string or missing, the test on any value is the typed test.\<close>

lemma peer_is_suspicious_typed:
  "peer_is_suspicious (map_option JStr (peer conn)) =
     Inr (array_includes suspiciousPorts (peerPort conn))"
  by (cases "peer conn") (auto simp: peer_is_suspicious_def truthy_def peerPort_def)

text \<open>A truthy peer that is not a string makes the test throw.\<close>

lemma peer_is_suspicious_throws:
  "peer_is_suspicious (Some (JNum 4444)) = Inl (TypeError ''conn.peer.split is not a function'')"
  by (simp add: peer_is_suspicious_def truthy_def)

text \<open>
  C10, as the code has it. A current connection is in a \<open>suspicious_port\<close> event exactly
  when its \<open>peer\<close> is a non-empty string whose final colon-delimited segment \<open>parseInt\<close>
  reads as one of the suspicious port numbers. So a connection whose \<open>peer\<close> is missing,
  is empty, or ends in a segment, numeric or not, that \<open>parseInt\<close> reads as no number
  or as another number is in no such event; the rule's test on it returns false and does
  not throw; and the events of the rule are the same with the connection as without it.
\<close>

theorem suspicious_port_membership:
  "(conn \<in> set (connections cur) \<longrightarrow>
      ((\<exists>a \<in> set (detectAnomalies now cur (Some before)). \<exists>cs.
            details a = SuspiciousConns cs \<and> conn \<in> set cs)
        \<longleftrightarrow> (\<exists>p n. peer conn = Some p \<and> p \<noteq> []
               \<and> parseInt (last (split_on CHR '':'' p)) = Some n \<and> n \<in> set suspiciousPorts)))
   \<and> (peer conn = None \<or> peer conn = Some []
        \<or> (\<exists>p. peer conn = Some p
              \<and> (\<forall>n \<in> set suspiciousPorts. parseInt (last (split_on CHR '':'' p)) \<noteq> Some n))
      \<longrightarrow> peer_is_suspicious (map_option JStr (peer conn)) = Inr False
          \<and> (\<forall>a \<in> set (detectAnomalies now cur prev). \<forall>cs.
                details a = SuspiciousConns cs \<longrightarrow> conn \<notin> set cs)
          \<and> filter (\<lambda>a. atype a = suspicious_port)
               (detectAnomalies now (cur\<lparr>connections := xs @ conn # ys\<rparr>) (Some before)) =
             filter (\<lambda>a. atype a = suspicious_port)
               (detectAnomalies now (cur\<lparr>connections := xs @ ys\<rparr>) (Some before)))"
proof -
  have member: "conn \<in> set (connections cur) \<longrightarrow>
      ((\<exists>a \<in> set (detectAnomalies now cur (Some before)). \<exists>cs.
            details a = SuspiciousConns cs \<and> conn \<in> set cs)
        \<longleftrightarrow> (\<exists>p n. peer conn = Some p \<and> p \<noteq> []
               \<and> parseInt (last (split_on CHR '':'' p)) = Some n \<and> n \<in> set suspiciousPorts))"
  proof
    assume here: "conn \<in> set (connections cur)"
    have "(\<exists>a \<in> set (detectAnomalies now cur (Some before)). \<exists>cs.
            details a = SuspiciousConns cs \<and> conn \<in> set cs)
          \<longleftrightarrow> array_includes suspiciousPorts (peerPort conn)"
    proof
      assume "\<exists>a \<in> set (detectAnomalies now cur (Some before)). \<exists>cs.
            details a = SuspiciousConns cs \<and> conn \<in> set cs"
      then obtain a cs where "a \<in> set (detectAnomalies now cur (Some before))"
        and "details a = SuspiciousConns cs" and "conn \<in> set cs"
        by blast
      with suspicious_carried show "array_includes suspiciousPorts (peerPort conn)"
        by fastforce
    next
      assume "array_includes suspiciousPorts (peerPort conn)"
      with here have inside: "conn \<in> set (filter (\<lambda>c. array_includes suspiciousPorts (peerPort c))
                            (connections cur))"
        by simp
      then have "filter (\<lambda>c. array_includes suspiciousPorts (peerPort c)) (connections cur) \<noteq> []"
        by (metis empty_iff empty_set)
      from suspicious_present [OF this, of now before]
      obtain ev where "ev \<in> set (detectAnomalies now cur (Some before))"
        and "details ev = SuspiciousConns
               (filter (\<lambda>c. array_includes suspiciousPorts (peerPort c)) (connections cur))"
        by force
      with inside show "\<exists>a \<in> set (detectAnomalies now cur (Some before)). \<exists>cs.
            details a = SuspiciousConns cs \<and> conn \<in> set cs"
        by blast
    qed
    then show "(\<exists>a \<in> set (detectAnomalies now cur (Some before)). \<exists>cs.
            details a = SuspiciousConns cs \<and> conn \<in> set cs)
        \<longleftrightarrow> (\<exists>p n. peer conn = Some p \<and> p \<noteq> []
               \<and> parseInt (last (split_on CHR '':'' p)) = Some n \<and> n \<in> set suspiciousPorts)"
      by (simp only: suspicious_iff)
  qed
  have excluded: "peer_is_suspicious (map_option JStr (peer conn)) = Inr False
          \<and> (\<forall>a \<in> set (detectAnomalies now cur prev). \<forall>cs.
                details a = SuspiciousConns cs \<longrightarrow> conn \<notin> set cs)
          \<and> filter (\<lambda>a. atype a = suspicious_port)
               (detectAnomalies now (cur\<lparr>connections := xs @ conn # ys\<rparr>) (Some before)) =
             filter (\<lambda>a. atype a = suspicious_port)
               (detectAnomalies now (cur\<lparr>connections := xs @ ys\<rparr>) (Some before))"
    if other: "peer conn = None \<or> peer conn = Some []
        \<or> (\<exists>p. peer conn = Some p
              \<and> (\<forall>n \<in> set suspiciousPorts. parseInt (last (split_on CHR '':'' p)) \<noteq> Some n))"
  proof -
    from other have clean: "\<not> array_includes suspiciousPorts (peerPort conn)"
      by (auto simp: suspicious_iff)
    then have test: "peer_is_suspicious (map_option JStr (peer conn)) = Inr False"
      by (simp add: peer_is_suspicious_typed)
    have absent: "\<forall>a \<in> set (detectAnomalies now cur prev). \<forall>cs.
            details a = SuspiciousConns cs \<longrightarrow> conn \<notin> set cs"
      using clean by (auto simp: detectAnomalies_def Let_def split: option.splits if_splits)
    have "filter (\<lambda>c. array_includes suspiciousPorts (peerPort c)) (xs @ conn # ys) =
          filter (\<lambda>c. array_includes suspiciousPorts (peerPort c)) (xs @ ys)"
      using clean by simp
    then have "filter (\<lambda>a. atype a = suspicious_port)
               (detectAnomalies now (cur\<lparr>connections := xs @ conn # ys\<rparr>) (Some before)) =
             filter (\<lambda>a. atype a = suspicious_port)
               (detectAnomalies now (cur\<lparr>connections := xs @ ys\<rparr>) (Some before))"
      by (simp add: suspicious_events)
    with test absent show ?thesis by blast
  qed
  from member excluded show ?thesis by blast
qed

text \<open>
  Five connections: to \<open>0.0.0.0:*\<close>, with an empty peer, to \<open>10.0.0.9:http\<close>, to
  \<open>10.0.0.9:80abc\<close> (not numeric, read as 80) and to port 4444. Only the last is
  reported, and the test on the first returns false.
\<close>

theorem suspicious_port_membership_witness:
  "detectAnomalies ''t''
       (make_state ''t'' [conn_to ''0.0.0.0:*'', conn_to [], conn_to ''10.0.0.9:http'',
                          conn_to ''10.0.0.9:80abc'', conn_to ''203.0.113.9:4444''] [])
       (Some (quiet 0)) =
     [\<lparr>atype = suspicious_port, severity = critical,
       details = SuspiciousConns [conn_to ''203.0.113.9:4444''], detected_at = ''t''\<rparr>]
   \<and> parseInt (last (split_on CHR '':'' ''0.0.0.0:*'')) = None
   \<and> parseInt (last (split_on CHR '':'' ''10.0.0.9:http'')) = None
   \<and> \<not> numeric_segment ''80abc''
   \<and> parseInt (last (split_on CHR '':'' ''10.0.0.9:80abc'')) = Some 80
   \<and> peer_is_suspicious (map_option JStr (peer (conn_to ''0.0.0.0:*''))) = Inr False
   \<and> peer_is_suspicious (map_option JStr (peer (conn_to ''10.0.0.9:80abc''))) = Inr False
   \<and> conn_to ''10.0.0.9:80abc'' \<notin> set [conn_to ''203.0.113.9:4444'']"
  using suspicious_port_membership [of "conn_to ''0.0.0.0:*''"
      "make_state ''t'' [conn_to ''0.0.0.0:*'', conn_to [], conn_to ''10.0.0.9:http'',
                          conn_to ''10.0.0.9:80abc'', conn_to ''203.0.113.9:4444''] []"
      "''t''" "quiet 0" "Some (quiet 0)" "[]" "[]"]
    suspicious_port_membership [of "conn_to ''10.0.0.9:80abc''"
      "make_state ''t'' [conn_to ''0.0.0.0:*'', conn_to [], conn_to ''10.0.0.9:http'',
                          conn_to ''10.0.0.9:80abc'', conn_to ''203.0.113.9:4444''] []"
      "''t''" "quiet 0" "Some (quiet 0)" "[]" "[]"]
  by (simp add: detectAnomalies_def make_state_def quiet_def conn_to_def numeric_segment_def
        peerPort_def parseInt_eval array_includes_def suspiciousPorts_def
        peer_is_suspicious_def truthy_def)

text \<open>
  C10, as the claim states it, fails: the final segments \<open>4444abc\<close> and \<open>0x115C\<close> are
  not numeric, yet \<open>parseInt\<close> reads 4444 from either (leading digits, and a hexadecimal
  number) and both connections are reported.
\<close>

theorem prefix_digits_counterexample:
  "\<not> numeric_segment (last (split_on CHR '':'' ''203.0.113.9:4444abc''))
   \<and> \<not> numeric_segment (last (split_on CHR '':'' ''203.0.113.9:0x115C''))
   \<and> parseInt ''4444abc'' = Some 4444 \<and> parseInt ''0x115C'' = Some 4444
   \<and> detectAnomalies ''t''
       (make_state ''t'' [conn_to ''203.0.113.9:4444abc'', conn_to ''203.0.113.9:0x115C''] [])
       (Some (quiet 0)) =
     [\<lparr>atype = suspicious_port, severity = critical,
       details = SuspiciousConns [conn_to ''203.0.113.9:4444abc'', conn_to ''203.0.113.9:0x115C''],
       detected_at = ''t''\<rparr>]"
  by (simp add: numeric_segment_def detectAnomalies_def make_state_def quiet_def conn_to_def
        peerPort_def parseInt_eval array_includes_def suspiciousPorts_def)

section \<open>Properties of the state store\<close>

lemmas io_defs = io_catch_def io_bind_def io_return_def io_throw_def console_write_def
  existsSync_def readFileSync_def mkdirSync_def writeFileSync_def https_request_def

lemma loadState_missing:
  "files w (stateFile CONFIG) = None \<Longrightarrow> fst (loadState CONFIG JSON_parse w) = Inr None"
  by (simp add: loadState_def io_defs)

lemma loadState_unparseable:
  "files w (stateFile CONFIG) = Some text \<Longrightarrow> JSON_parse text = Inl err \<Longrightarrow>
   loadState CONFIG JSON_parse w = (Inr None, w\<lparr>console := console w @ [ErrorLoadingState err]\<rparr>)"
  by (simp add: loadState_def io_defs)

text \<open>
  X3. \<open>loadState\<close> never throws, whatever the file system holds and whatever
  \<open>JSON.parse\<close> does, and it changes no file.
\<close>

theorem loadState_total:
  "\<exists>v w'. loadState CONFIG JSON_parse w = (Inr v, w') \<and> files w' = files w"
  by (auto simp: loadState_def io_defs split: option.split sum.split)

text \<open>
  C3. When the state file is missing, or its text does not parse, \<open>loadState\<close> returns
  \<open>null\<close> and does not throw; \<open>detectAnomalies\<close> returns the empty list when there is no
  previous state; so the cycle that loads such a state reports no anomaly, whatever the
  current snapshot \<open>S\<close> is.
\<close>

theorem no_baseline_no_anomalies:
  assumes "files w (stateFile CONFIG) = None
           \<or> (\<exists>text err. files w (stateFile CONFIG) = Some text \<and> JSON_parse text = Inl err)"
  shows "fst (loadState CONFIG JSON_parse w) = Inr None
         \<and> detectAnomalies now S None = []
         \<and> (\<exists>previous. fst (loadState CONFIG JSON_parse w) = Inr previous
               \<and> detectAnomalies now S previous = [])"
proof -
  have loaded: "fst (loadState CONFIG JSON_parse w) = Inr None"
    using assms loadState_missing loadState_unparseable by (metis fst_conv)
  have "detectAnomalies now S None = []"
    by (simp add: detectAnomalies_def)
  with loaded show ?thesis by simp
qed

text \<open>
  No state file at all, and a state file cut off in the middle: both load as \<open>null\<close>, and
  51 connections raise nothing.
\<close>

theorem no_baseline_no_anomalies_witness:
  "fst (loadState sample_config (\<lambda>text. Inl (SyntaxError ''Unexpected end of JSON input''))
          empty_world) = Inr None
   \<and> fst (loadState sample_config (\<lambda>text. Inl (SyntaxError ''Unexpected end of JSON input''))
          (world_with_file (stateFile sample_config) ''{ timestamp: '')) = Inr None
   \<and> detectAnomalies ''t'' (quiet 51) None = []"
  using no_baseline_no_anomalies [of empty_world sample_config
          "\<lambda>text. Inl (SyntaxError ''Unexpected end of JSON input'')"
          "''t''" "quiet 51"]
        no_baseline_no_anomalies [of "world_with_file (stateFile sample_config) ''{ timestamp: ''"
          sample_config "\<lambda>text. Inl (SyntaxError ''Unexpected end of JSON input'')"
          "''t''" "quiet 51"]
  by (simp add: empty_world_def world_with_file_def)

lemma saveState_ok:
  "write_fault w = None \<Longrightarrow>
   \<exists>w'. saveState CONFIG JSON_stringify s w = (Inr (), w')
        \<and> files w' (stateFile CONFIG) = Some (JSON_stringify s) \<and> console w' = console w"
  by (simp add: saveState_def io_defs Let_def)

lemma saveState_fault:
  "write_fault w = Some code \<Longrightarrow>
   saveState CONFIG JSON_stringify s w =
     (Inr (), w\<lparr>console := console w @ [ErrorSavingState (SystemError code)]\<rparr>)"
  by (simp add: saveState_def io_defs Let_def)

text \<open>
  C6, as the code has it. \<open>saveState\<close> never throws. When the file system refuses the
  write, the error is written to the console and \<open>saveState\<close> returns; when the write
  succeeds, the state file holds the serialised snapshot and nothing is logged.
\<close>

theorem saveState_absorbs_write_failure:
  "fst (saveState CONFIG JSON_stringify s w) = Inr ()
   \<and> (\<forall>code. write_fault w = Some code \<longrightarrow>
         console (snd (saveState CONFIG JSON_stringify s w)) =
           console w @ [ErrorSavingState (SystemError code)])
   \<and> (write_fault w = None \<longrightarrow>
         files (snd (saveState CONFIG JSON_stringify s w)) (stateFile CONFIG) = Some (JSON_stringify s)
         \<and> console (snd (saveState CONFIG JSON_stringify s w)) = console w)"
proof (cases "write_fault w")
  case None
  from saveState_ok [OF None, of CONFIG JSON_stringify s] None show ?thesis by auto
next
  case (Some code)
  from saveState_fault [OF Some, of CONFIG JSON_stringify s] Some show ?thesis by simp
qed

text \<open>On the full disk the error is logged; on an empty disk the file is written.\<close>

theorem saveState_absorbs_write_failure_witness:
  "fst (saveState sample_config (\<lambda>s. ''{ }'') (quiet 3) full_disk) = Inr ()
   \<and> console (snd (saveState sample_config (\<lambda>s. ''{ }'') (quiet 3) full_disk)) =
        [ErrorSavingState (SystemError ''ENOSPC'')]
   \<and> files (snd (saveState sample_config (\<lambda>s. ''{ }'') (quiet 3) empty_world)) (stateFile sample_config)
        = Some ''{ }''"
  using saveState_absorbs_write_failure [of sample_config "\<lambda>s. ''{ }''" "quiet 3" full_disk]
        saveState_absorbs_write_failure [of sample_config "\<lambda>s. ''{ }''" "quiet 3" empty_world]
  by (simp add: full_disk_def world_with_file_def empty_world_def)

text \<open>
  C6, as the claim states it, fails: on the full disk the write throws \<open>ENOSPC\<close>, and
  \<open>saveState\<close> still returns normally to its caller.
\<close>

theorem saveState_full_disk_counterexample:
  "fst (writeFileSync (stateFile sample_config) ''{ }'' full_disk) = Inl (SystemError ''ENOSPC'')
   \<and> fst (saveState sample_config (\<lambda>s. ''{ }'') (quiet 3) full_disk) = Inr ()"
  by (simp add: saveState_def io_defs Let_def full_disk_def world_with_file_def empty_world_def)

section \<open>Properties of the alert dispatcher\<close>

text \<open>
  X2. Without a webhook \<open>sendAlert\<close> writes the alert to the console and returns; with a
  webhook that is a URL it hands one POST request with the payload to the network and
  returns. When the outcome of the request arrives, a network error and a status other
  than 204 are written to the console and nothing is thrown.
\<close>

theorem sendAlert_best_effort:
  "(alertWebhook CONFIG = None \<or> alertWebhook CONFIG = Some [] \<longrightarrow>
      sendAlert CONFIG URL payload_of alert w =
        (Inr (), w\<lparr>console := console w @ [AlertNoWebhook alert]\<rparr>))
   \<and> (\<forall>hook u. alertWebhook CONFIG = Some hook \<and> hook \<noteq> [] \<and> URL hook = Some u \<longrightarrow>
        sendAlert CONFIG URL payload_of alert w =
          (Inr (), w\<lparr>outbox := outbox w @
             [\<lparr>req_hostname = hostname u, req_path = pathname u @ search u,
               req_method = ''POST'', content_type = ''application/json'',
               content_length = length (payload_of alert), req_body = payload_of alert\<rparr>]\<rparr>))
   \<and> on_error err w = (Inr (), w\<lparr>console := console w @ [ErrorSendingAlert err]\<rparr>)
   \<and> on_response code w =
        (Inr (), if code \<noteq> 204 then w\<lparr>console := console w @ [FailedToSendAlert code]\<rparr> else w)"
  by (auto simp: sendAlert_def or_default_def io_defs Let_def on_error_def on_response_def)

theorem sendAlert_best_effort_witness:
  "sendAlert sample_config sample_URL (\<lambda>a. ''{}'') spike_alert empty_world =
     (Inr (), empty_world\<lparr>console := [AlertNoWebhook spike_alert]\<rparr>)
   \<and> sendAlert (sample_config\<lparr>alertWebhook := Some ''https://discord.com/api/webhooks/1/abc''\<rparr>)
        sample_URL (\<lambda>a. ''{}'') spike_alert empty_world =
     (Inr (), empty_world\<lparr>outbox :=
        [\<lparr>req_hostname = ''discord.com'', req_path = ''/api/webhooks/1/abc'',
          req_method = ''POST'', content_type = ''application/json'',
          content_length = 2, req_body = ''{}''\<rparr>]\<rparr>)"
  using sendAlert_best_effort [of sample_config sample_URL "\<lambda>a. ''{}''" spike_alert empty_world]
        sendAlert_best_effort [of "sample_config\<lparr>alertWebhook := Some ''https://discord.com/api/webhooks/1/abc''\<rparr>"
          sample_URL "\<lambda>a. ''{}''" spike_alert empty_world]
  by (simp add: sample_config_def sample_URL_def empty_world_def)

text \<open>
  C7. With a webhook that is configured and is not a URL, \<open>sendAlert\<close> throws the
  \<open>TypeError\<close> of \<open>new URL\<close> to its caller, and neither logs the alert nor sends it.
\<close>

theorem sendAlert_malformed_webhook_throws:
  assumes "alertWebhook CONFIG = Some hook" and "hook \<noteq> []" and "URL hook = None"
  shows "sendAlert CONFIG URL payload_of alert w = (Inl (TypeError ''Invalid URL''), w)"
  using assms by (simp add: sendAlert_def or_default_def io_defs Let_def)

theorem sendAlert_malformed_webhook_throws_witness:
  "sendAlert (sample_config\<lparr>alertWebhook := Some ''discord-webhook''\<rparr>) sample_URL (\<lambda>a. ''{}'')
      spike_alert empty_world = (Inl (TypeError ''Invalid URL''), empty_world)"
  using sendAlert_malformed_webhook_throws [of "sample_config\<lparr>alertWebhook := Some ''discord-webhook''\<rparr>"
      "''discord-webhook''" sample_URL "\<lambda>a. ''{}''" spike_alert empty_world]
  by (simp add: sample_URL_def)

section \<open>Properties of the snapshot collector\<close>

lemma getListeningPorts_resolves_iff:
  "(\<exists>ps. getListeningPorts out = Inr ps) \<longleftrightarrow> (\<exists>l \<in> set (text_lines out). contains ''LISTEN'' l)"
  by (auto simp: getListeningPorts_def exec_def grep_def Let_def filter_empty_conv)

lemma one_listener:
  "getListeningPorts ss_one_listener =
     Inr [\<lparr>port_protocol = Some ''tcp'', port = ''22'', address = ''0.0.0.0:22''\<rparr>]"
  by code_simp

text \<open>The sibling \<open>getNetworkConnections\<close> resolves to the empty list when \<open>ss\<close> prints its header only.\<close>

lemma no_connection_resolves:
  "getNetworkConnections
     \<lparr>exit_code = 0,
      proc_stdout = ''Netid State  Recv-Q Send-Q Local Address:Port Peer Address:Port'' @ [CHR 0x0A]\<rparr>
   = Inr []"
  by code_simp

lemma split_on_nonempty: "split_on c s \<noteq> []"
  by (induction s) (auto split: list.splits)

lemma split_on_line:
  "c \<notin> set l \<Longrightarrow> split_on c (l @ c # rest) = l # split_on c rest"
  by (induction l) (auto split: list.splits simp: split_on_nonempty)

lemma split_on_free: "l \<in> set (split_on c s) \<Longrightarrow> c \<notin> set l"
  by (induction s arbitrary: l) (auto split: if_splits list.splits)

lemma text_lines_free: "l \<in> set (text_lines s) \<Longrightarrow> CHR 0x0A \<notin> set l"
  by (auto simp: text_lines_def Let_def split: if_splits dest: split_on_free in_set_butlastD)

lemma contains_LISTEN: "contains ''LISTEN'' l \<Longrightarrow> CHR ''L'' \<in> set l"
  by (induction l) (auto simp: take_Cons')

lemma trim_empty: "trim l = [] \<Longrightarrow> \<forall>c \<in> set l. js_space c"
proof -
  assume "trim l = []"
  then have "dropWhile js_space (rev (dropWhile js_space l)) = []"
    by (simp add: trim_def)
  then have "\<forall>c \<in> set (dropWhile js_space l). js_space c"
    by (simp add: dropWhile_eq_Nil_conv)
  then have "dropWhile js_space l = []"
    by (metis hd_dropWhile hd_in_set)
  then show ?thesis by (simp add: dropWhile_eq_Nil_conv)
qed

lemma LISTEN_line_kept: "contains ''LISTEN'' l \<Longrightarrow> trim l \<noteq> []"
  using contains_LISTEN trim_empty by (fastforce simp: js_space_def)

lemma getListeningPorts_never_empty: "getListeningPorts out \<noteq> Inr []"
proof (cases "filter (contains ''LISTEN'') (text_lines out)")
  case Nil
  then show ?thesis
    by (simp add: getListeningPorts_def exec_def grep_def Let_def)
next
  case (Cons l ls)
  then have l: "contains ''LISTEN'' l" "l \<in> set (text_lines out)"
    by (metis filter_eq_ConsD list.set_intros(1) in_set_conv_decomp)+
  have free: "CHR 0x0A \<notin> set l"
    using l(2) by (rule text_lines_free)
  have "split_on CHR 0x0A (concat (map (\<lambda>l. l @ [CHR 0x0A]) (l # ls))) =
        l # split_on CHR 0x0A (concat (map (\<lambda>l. l @ [CHR 0x0A]) ls))"
    using split_on_line [OF free] by simp
  with Cons l(1) show ?thesis
    by (simp add: getListeningPorts_def exec_def grep_def Let_def LISTEN_line_kept)
qed

text \<open>
  C5. When \<open>ss\<close> reports no listening port, \<open>grep\<close> selects no line and ends with
  status 1, \<open>exec\<close> reports that as an error, and \<open>getListeningPorts\<close> rejects with it.
  Whatever \<open>ss\<close> prints, \<open>getListeningPorts\<close> does not resolve to the empty list.
\<close>

theorem no_listener_rejects:
  "getListeningPorts ss_no_listener = Inl (ExecError 1) \<and> getListeningPorts out \<noteq> Inr []"
proof -
  have "getListeningPorts ss_no_listener = Inl (ExecError 1)"
    by code_simp
  then show ?thesis
    by (simp add: getListeningPorts_never_empty)
qed

section \<open>Properties of the feed fetchers and the aggregator\<close>

lemmas json_defs = httpRequest_def and_then_def get_prop_def length_of_def slice_map_def
  or_json_def truthy_def failed_result_def






lemma foldl_add_sum_list: "foldl (\<lambda>sum t. sum + f t) (a::nat) ts = a + sum_list (map f ts)"
  by (induction ts arbitrary: a) simp_all

lemma totalThreats_sum:
  "totalThreats (calculate_summary now ts) =
     sum_list (map (\<lambda>t. case items t of None \<Rightarrow> 0 | Some its \<Rightarrow> length its) ts)"
  by (simp add: calculate_summary_def foldl_add_sum_list)

lemma highSeverity_sum:
  "highSeverity (calculate_summary now ts) =
     sum_list (map (\<lambda>t. case items t of None \<Rightarrow> 0
                        | Some its \<Rightarrow> length (filter (\<lambda>i. item_severity i = high) its)) ts)"
  by (simp add: calculate_summary_def foldl_add_sum_list)

lemma sources_map:
  "sources (calculate_summary now ts) =
     map (\<lambda>t. \<lparr>name = source t,
               status = (if or_default (error t) [] \<noteq> [] then ''error'' else ''ok''),
               entry_count = (case count t of None \<Rightarrow> 0 | Some n \<Rightarrow> n)\<rparr>) ts"
  by (simp add: calculate_summary_def)

lemma sample_fetch_11:
  "fetchRansomwareVictims sample_parse ''t'' (Reply 200 ''[11 victims]'') =
     \<lparr>source = Some ''Ransomware.live'', fetched_at = Some ''t'', count = Some 11,
      items = Some (replicate 10 \<lparr>item_type = ''victim'',
                      item_fields =
                        [(''name'', Some (JStr ''ACME'')),
                         (''group'', Some (JStr ''lockbit3'')),
                         (''date'', Some (JStr ''2024-01-01'')),
                         (''country'', Some (JStr ''US'')),
                         (''url'', Some JNull)],
                      item_severity = high\<rparr>), error = None\<rparr>"
  by code_simp



text \<open>
  X1. The summary has one entry per result, in order, named after the result's source. A
  result with a non-empty error message is listed with status \<open>error\<close>, one with no
  error or with an empty message with status \<open>ok\<close>, and one without a count with count
  0. \<open>totalThreats\<close> is the sum of \<open>items.length\<close> and \<open>highSeverity\<close> the number
  of items of severity \<open>high\<close>, over all results.
\<close>

theorem summary_of_results:
  "length (sources (calculate_summary now ts)) = length ts
   \<and> (\<forall>i < length ts.
         name (sources (calculate_summary now ts) ! i) = source (ts ! i)
         \<and> (\<forall>m. error (ts ! i) = Some m \<and> m \<noteq> [] \<longrightarrow>
               status (sources (calculate_summary now ts) ! i) = ''error'')
         \<and> (error (ts ! i) = None \<or> error (ts ! i) = Some [] \<longrightarrow>
               status (sources (calculate_summary now ts) ! i) = ''ok'')
         \<and> (count (ts ! i) = None \<longrightarrow> entry_count (sources (calculate_summary now ts) ! i) = 0))
   \<and> totalThreats (calculate_summary now ts) =
       sum_list (map (\<lambda>t. case items t of None \<Rightarrow> 0 | Some its \<Rightarrow> length its) ts)
   \<and> highSeverity (calculate_summary now ts) =
       sum_list (map (\<lambda>t. case items t of None \<Rightarrow> 0
                          | Some its \<Rightarrow> length (filter (\<lambda>i. item_severity i = high) its)) ts)"
  by (auto simp: sources_map totalThreats_sum highSeverity_sum or_default_def)

text \<open>One feed returns 11 entries, two fail with a message.\<close>

theorem summary_of_results_witness:
  "map status (sources (calculate_summary ''t''
      [fetchRansomwareVictims sample_parse ''t'' (Reply 200 ''[11 victims]''),
       failed_result ''URLhaus'' (Error ''connect ETIMEDOUT''),
       failed_result ''ThreatFox'' (Error ''socket hang up'')])) = [''ok'', ''error'', ''error'']
   \<and> map entry_count (sources (calculate_summary ''t''
      [fetchRansomwareVictims sample_parse ''t'' (Reply 200 ''[11 victims]''),
       failed_result ''URLhaus'' (Error ''connect ETIMEDOUT''),
       failed_result ''ThreatFox'' (Error ''socket hang up'')])) = [11, 0, 0]
   \<and> totalThreats (calculate_summary ''t''
      [fetchRansomwareVictims sample_parse ''t'' (Reply 200 ''[11 victims]''),
       failed_result ''URLhaus'' (Error ''connect ETIMEDOUT''),
       failed_result ''ThreatFox'' (Error ''socket hang up'')]) = 10
   \<and> highSeverity (calculate_summary ''t''
      [fetchRansomwareVictims sample_parse ''t'' (Reply 200 ''[11 victims]''),
       failed_result ''URLhaus'' (Error ''connect ETIMEDOUT''),
       failed_result ''ThreatFox'' (Error ''socket hang up'')]) = 10"
  using summary_of_results [of "''t''"
      "[fetchRansomwareVictims sample_parse ''t'' (Reply 200 ''[11 victims]''),
        failed_result ''URLhaus'' (Error ''connect ETIMEDOUT''),
        failed_result ''ThreatFox'' (Error ''socket hang up'')]"]
  by (simp add: sample_fetch_11 failed_result_def sources_map or_default_def)

text \<open>
  C4. Two of the three fetches fail, the URLhaus one with an error whose message is the
  empty string. Its entry in \<open>sources\<close> has status \<open>ok\<close>: the summary tests the
  message for truthiness, and the empty string is falsy.
\<close>

theorem empty_error_message_reported_ok:
  "\<exists>out w'. aggregateThreats sample_parse (\<lambda>v. False) ''t'' (\<lambda>out. ''{}'') ''/opt/home-soc/data''
         ''/opt/home-soc/data/threat-cache.json''
         (Reply 200 ''[1 victim]'') (NetError []) (NetError ''socket hang up'') empty_world = (Inr out, w')
     \<and> map error (threats out) = [None, Some [], Some ''socket hang up'']
     \<and> map status (sources (summary out)) = [''ok'', ''ok'', ''error'']"
  by (simp add: aggregateThreats_def io_defs empty_world_def Let_def settled_value_def
        fetchRansomwareVictims_def fetchMaliciousURLs_def fetchIOCs_def json_defs sample_parse_def
        victim_item_def victim_def calculate_summary_def or_default_def)

end
